theory Spec2Isabelle
  imports Complex_Main
begin

section \<open>Collaborators of \<^verbatim>\<open>raytracing.c\<close>\<close>

text \<open>
  \<^verbatim>\<open>raytracing.c\<close> sees scenes, objects, materials, lights, vectors and colours only
  through the functions of \<^verbatim>\<open>raytracing.h\<close>, \<^verbatim>\<open>color.h\<close> and \<^verbatim>\<open>algebra.h\<close>, none of which
  belongs to the sources. Their types are therefore type parameters (\<open>'v\<close> for
  \<^verbatim>\<open>Vector\<close>, \<open>'c\<close> for \<^verbatim>\<open>Color\<close>, \<open>'t\<close> for a texture coordinate) and their functions
  are fields of records, named as in the C code. A C \<^verbatim>\<open>double\<close> is a \<open>real\<close> and a decimal
  constant the rational it denotes: rounding, infinities and NaN are outside the model.
\<close>

record ('v, 't) Object =
  objIntercept :: "'v \<Rightarrow> 'v \<Rightarrow> real"
  objNormalAt :: "'v \<Rightarrow> 'v"
  objTextureCoordinateAt :: "'v \<Rightarrow> 't"
  objInterceptExit :: "'v \<Rightarrow> 'v \<Rightarrow> 'v"
  objGetMaterial :: int

record ('t, 'c) Material =
  materialGetDiffuse :: "'t \<Rightarrow> 'c"
  materialGetSpecular :: 'c
  materialGetSpecularExponent :: real
  materialGetReflectionFactor :: real
  materialGetRefractionIndex :: real
  materialGetOpacity :: real

record ('v, 'c) Light =
  lightGetPosition :: 'v
  lightGetColor :: 'c

text \<open>
  A scene: \<^verbatim>\<open>sceneGetObjectCount\<close>/\<^verbatim>\<open>sceneGetObject\<close> and
  \<^verbatim>\<open>sceneGetLightCount\<close>/\<^verbatim>\<open>sceneGetLight\<close> enumerate two arrays, kept here as lists.
\<close>

record ('v, 't, 'c) Scene =
  sceneObjects :: "('v, 't) Object list"
  sceneLights :: "('v, 'c) Light list"
  sceneGetMaterial :: "int \<Rightarrow> ('t, 'c) Material"
  sceneGetAmbientLight :: 'c
  sceneGetBackgroundColor :: "'v \<Rightarrow> 'v \<Rightarrow> 'c"

text \<open>The functions of \<^verbatim>\<open>algebra.h\<close> and \<^verbatim>\<open>color.h\<close> that \<^verbatim>\<open>raytracing.c\<close> calls.\<close>

record ('v, 'c) Algebra =
  algAdd :: "'v \<Rightarrow> 'v \<Rightarrow> 'v"
  algSub :: "'v \<Rightarrow> 'v \<Rightarrow> 'v"
  algScale :: "real \<Rightarrow> 'v \<Rightarrow> 'v"
  algUnit :: "'v \<Rightarrow> 'v"
  algDot :: "'v \<Rightarrow> 'v \<Rightarrow> real"
  algNorm :: "'v \<Rightarrow> real"
  algReflect :: "'v \<Rightarrow> 'v \<Rightarrow> 'v"
  algSnell :: "'v \<Rightarrow> 'v \<Rightarrow> real \<Rightarrow> real \<Rightarrow> 'v"
  colorScale :: "real \<Rightarrow> 'c \<Rightarrow> 'c"
  colorAddition :: "'c \<Rightarrow> 'c \<Rightarrow> 'c"
  colorMultiplication :: "'c \<Rightarrow> 'c \<Rightarrow> 'c"

section \<open>Constants\<close>

text \<open>\<^verbatim>\<open>#define MAX_DEPTH 6\<close>\<close>

definition MAX_DEPTH :: int where
  "MAX_DEPTH = 6"

text \<open>\<^verbatim>\<open>DBL_MAX\<close> of \<^verbatim>\<open>float.h\<close>, the largest finite IEEE-754 double.\<close>

definition DBL_MAX :: real where
  "DBL_MAX = (2 ^ 53 - 1) * 2 ^ 971"

section \<open>Program state\<close>

text \<open>
  The only variable of the file is the global \<^verbatim>\<open>Color lastColor\<close>. The fields \<open>calls\<close> and
  \<open>level\<close> are ghosts, which no function reads to compute a colour. \<open>level\<close> is the number of
  \<^verbatim>\<open>rayTrace\<close> calls that have been entered and not yet left: the length of the chain of
  nested \<^verbatim>\<open>rayTrace\<close> calls at this moment. \<open>calls\<close> records, in order, every entry into one
  of the four functions of the file, with the level at which the call is made.
\<close>

datatype 'v call =
    RayTrace 'v 'v int
  | GetNearestObject
  | Shade int
  | IsInShadow

record ('v, 'c) state =
  lastColor :: 'c
  calls :: "(nat \<times> 'v call) list"
  level :: nat

definition enter :: "'v call \<Rightarrow> ('v, 'c) state \<Rightarrow> ('v, 'c) state" where
  "enter e st = st\<lparr>calls := calls st @ [(level st, e)]\<rparr>"

text \<open>Entering the body of \<^verbatim>\<open>rayTrace\<close>, and leaving it for the caller in state \<open>st0\<close>.\<close>

definition descend :: "('v, 'c) state \<Rightarrow> ('v, 'c) state" where
  "descend st = st\<lparr>level := level st + 1\<rparr>"

definition resume :: "('v, 'c) state \<Rightarrow> ('v, 'c) state \<Rightarrow> ('v, 'c) state" where
  "resume st0 st = st\<lparr>level := level st0\<rparr>"

section \<open>\<^verbatim>\<open>getNearestObject\<close>\<close>

text \<open>
  The \<^verbatim>\<open>for\<close> loop of \<^verbatim>\<open>getNearestObject\<close>, from object \<open>i\<close> on. The out parameter
  \<^verbatim>\<open>Object** object\<close> is passed in and returned: \<open>None\<close> is the uninitialised pointer of
  \<^verbatim>\<open>rayTrace\<close>, \<open>Some i\<close> points to \<^verbatim>\<open>sceneGetObject(scene, i)\<close>.
\<close>

fun nearestLoop ::
  "('v, 't) Object list \<Rightarrow> 'v \<Rightarrow> 'v \<Rightarrow> nat \<Rightarrow> real \<times> nat option \<Rightarrow> real \<times> nat option" where
  "nearestLoop [] eye ray i (closest, object) = (closest, object)"
| "nearestLoop (currentObject # rest) eye ray i (closest, object) =
     (let distance = objIntercept currentObject eye ray in
      if distance > 0.00001 \<and> distance < closest
      then nearestLoop rest eye ray (i + 1) (distance, Some i)
      else nearestLoop rest eye ray (i + 1) (closest, object))"

definition getNearestObject ::
  "('v, 't, 'c) Scene \<Rightarrow> 'v \<Rightarrow> 'v \<Rightarrow> nat option \<Rightarrow> real \<times> nat option" where
  "getNearestObject scene eye ray object =
     nearestLoop (sceneObjects scene) eye ray 0 (DBL_MAX, object)"

section \<open>\<^verbatim>\<open>isInShadow\<close>\<close>

fun shadowLoop ::
  "('v, 't, 'c) Scene \<Rightarrow> ('v, 't) Object list \<Rightarrow> 'v \<Rightarrow> 'v \<Rightarrow> real \<Rightarrow> real \<Rightarrow> real" where
  "shadowLoop scene [] point rayToLight maxDistance opacity = opacity"
| "shadowLoop scene (interceptionObject # rest) point rayToLight maxDistance opacity =
     (let distance = objIntercept interceptionObject point rayToLight in
      if distance > 0.1 \<and> distance < maxDistance
      then shadowLoop scene rest point rayToLight maxDistance
             (opacity + materialGetOpacity
                          (sceneGetMaterial scene (objGetMaterial interceptionObject)))
      else shadowLoop scene rest point rayToLight maxDistance opacity)"

definition isInShadow ::
  "('v, 'c) Algebra \<Rightarrow> ('v, 't, 'c) Scene \<Rightarrow> 'v \<Rightarrow> 'v \<Rightarrow> 'v \<Rightarrow> real" where
  "isInShadow A scene point rayToLight lightLocation =
     (let maxDistance = algNorm A (algSub A lightLocation point)
      in shadowLoop scene (sceneObjects scene) point rayToLight maxDistance 0)"

section \<open>The diffuse and the specular block of \<^verbatim>\<open>shade\<close>\<close>

text \<open>
  Lines 183 to 197 (\<^verbatim>\<open>Luz Difusa\<close>): the colour after the block, from the colour before it.
\<close>

definition diffuseLight ::
  "('v, 'c) Algebra \<Rightarrow> 'v \<Rightarrow> 'v \<Rightarrow> 'c \<Rightarrow> real \<Rightarrow> real \<Rightarrow> 'c \<Rightarrow> 'c" where
  "diffuseLight A normal pointToLightRay diffuse opacity InterceptionOpacity color =
     (if opacity > 0
      then (let produto = algDot A normal pointToLightRay in
            if produto > 0
            then (let intensitycolor = colorScale A produto diffuse;
                      intensitycolor = colorScale A opacity intensitycolor;
                      intensitycolor =
                        (if InterceptionOpacity \<noteq> 0
                         then colorScale A (1 - InterceptionOpacity) intensitycolor
                         else intensitycolor)
                  in colorAddition A color intensitycolor)
            else color)
      else color)"

text \<open>
  Lines 199 to 212 (\<^verbatim>\<open>Reflexao Especular\<close>). \<^verbatim>\<open>pow\<close> is called with a positive base only,
  where it is \<open>powr\<close>.
\<close>

definition specularLight ::
  "('v, 'c) Algebra \<Rightarrow> 'v \<Rightarrow> 'v \<Rightarrow> 'v \<Rightarrow> 'c \<Rightarrow> real \<Rightarrow> real \<Rightarrow> 'c \<Rightarrow> 'c" where
  "specularLight A normal pointToLightRay pointToEyeRay specular specularExponent
       InterceptionOpacity color =
     (let pointToLightRayReflected = algReflect A pointToLightRay normal;
          produto = algDot A pointToLightRayReflected pointToEyeRay
      in if produto > 0
         then (let produto =
                     algDot A pointToLightRayReflected pointToEyeRay powr specularExponent;
                   intensitycolor = colorScale A produto specular;
                   intensitycolor =
                     (if InterceptionOpacity \<noteq> 0
                      then colorScale A (1 - InterceptionOpacity) intensitycolor
                      else intensitycolor)
               in colorAddition A color intensitycolor)
         else color)"

section \<open>The transparency block of \<^verbatim>\<open>shade\<close>\<close>

text \<open>
  Lines 167 to 171: the point where the ray leaves the object, and the direction it leaves
  it with. The block declares a \<^verbatim>\<open>normal\<close> of its own and assigns to the parameter \<^verbatim>\<open>ray\<close>.
\<close>

definition refraction ::
  "('v, 'c) Algebra \<Rightarrow> ('v, 't) Object \<Rightarrow> 'v \<Rightarrow> 'v \<Rightarrow> real \<Rightarrow> 'v \<times> 'v" where
  "refraction A object point ray refractedIndex =
     (let normal = objNormalAt object point;
          innerRay = algSnell A ray normal 1.00029 refractedIndex;
          exitPoint = objInterceptExit object point innerRay;
          normal = algUnit A (objNormalAt object exitPoint);
          ray = algSnell A innerRay (algScale A (- 1) normal) refractedIndex 1.00029
      in (exitPoint, ray))"

text \<open>Lines 174 to 177, from the colour \<^verbatim>\<open>colorOpacity\<close> that the recursive call returned.\<close>

definition blend :: "('v, 'c) Algebra \<Rightarrow> real \<Rightarrow> 'c \<Rightarrow> 'c \<Rightarrow> 'c" where
  "blend A opacity color colorOpacity =
     (let factor = 1 - opacity;
          intensitycolor = colorScale A factor colorOpacity;
          colorAux = colorScale A opacity color
      in colorAddition A intensitycolor colorAux)"

section \<open>The direct light of one source\<close>

text \<open>
  Lines 152 to 161 and 181 to 212: what one iteration of the loop does to \<^verbatim>\<open>color\<close> apart
  from its two recursive calls. The colour of the light is fetched into \<^verbatim>\<open>intensitycolor\<close>
  as in the source.
\<close>

definition directLight ::
  "('v, 'c) Algebra \<Rightarrow> ('v, 't, 'c) Scene \<Rightarrow> 'v \<Rightarrow> ('v, 't) Object \<Rightarrow> 'v \<Rightarrow> 'v
     \<Rightarrow> ('v, 'c) Light \<Rightarrow> 'c \<Rightarrow> 'c" where
  "directLight A scene eye object point normal intensity color =
     (let material = sceneGetMaterial scene (objGetMaterial object);
          diffuse = materialGetDiffuse material (objTextureCoordinateAt object point);
          specular = materialGetSpecular material;
          specularExponent = materialGetSpecularExponent material;
          opacity = materialGetOpacity material;
          InterceptionOpacity = (0 :: real);
          softlight = lightGetPosition intensity;
          intensitycolor = lightGetColor intensity;
          pointToEyeRay = algUnit A (algSub A eye point);
          pointToLightRay = algUnit A (algSub A softlight point);
          InterceptionOpacity = isInShadow A scene point pointToLightRay softlight;
          color = diffuseLight A normal pointToLightRay diffuse opacity
                    InterceptionOpacity color
      in specularLight A normal pointToLightRay pointToEyeRay specular specularExponent
           InterceptionOpacity color)"

section \<open>\<^verbatim>\<open>rayTrace\<close> and \<^verbatim>\<open>shade\<close>\<close>

text \<open>
  \<open>rayTrace\<close> and \<open>shade\<close> are the two C functions; \<open>shadeLoop\<close> is the \<^verbatim>\<open>for\<close> loop of
  \<^verbatim>\<open>shade\<close> over the lights still to visit. Its loop state is the accumulated \<^verbatim>\<open>color\<close>, the
  parameter \<^verbatim>\<open>ray\<close> (which the transparency block overwrites) and the program state. Each
  function returns the colour and the program state. \<^verbatim>\<open>depth\<close> is a C \<^verbatim>\<open>int\<close>; it is only
  incremented below \<^verbatim>\<open>MAX_DEPTH\<close>, or by \<^verbatim>\<open>shade\<close>, which \<^verbatim>\<open>rayTrace\<close> alone calls, so that no
  increment overflows.

  In \<open>rayTrace\<close> the branch \<open>None\<close> stands for reading the uninitialised \<^verbatim>\<open>object\<close>; lemma
  \<open>getNearestObject_hit\<close> shows that it is never taken. Lemma \<open>shadeLoop_blocks\<close> splits
  one iteration into the three blocks of the next section.
\<close>

function
  rayTrace ::
    "('v, 'c) Algebra \<Rightarrow> ('v, 't, 'c) Scene \<Rightarrow> 'v \<Rightarrow> 'v \<Rightarrow> int \<Rightarrow> ('v, 'c) state
       \<Rightarrow> 'c \<times> ('v, 'c) state"
and shade ::
    "('v, 'c) Algebra \<Rightarrow> ('v, 't, 'c) Scene \<Rightarrow> 'v \<Rightarrow> 'v \<Rightarrow> ('v, 't) Object \<Rightarrow> 'v \<Rightarrow> 'v \<Rightarrow> int
       \<Rightarrow> ('v, 'c) state \<Rightarrow> 'c \<times> ('v, 'c) state"
and shadeLoop ::
    "('v, 'c) Algebra \<Rightarrow> ('v, 't, 'c) Scene \<Rightarrow> 'v \<Rightarrow> ('v, 't) Object \<Rightarrow> 'v \<Rightarrow> 'v \<Rightarrow> int
       \<Rightarrow> ('v, 'c) Light list \<Rightarrow> 'c \<times> 'v \<times> ('v, 'c) state \<Rightarrow> 'c \<times> ('v, 'c) state"
where
  "rayTrace A scene eye ray depth st0 =
     (if depth < MAX_DEPTH
      then (let found = getNearestObject scene eye ray None;
                distance = fst found;
                st = enter GetNearestObject (descend (enter (RayTrace eye ray depth) st0))
            in if distance = DBL_MAX
               then (sceneGetBackgroundColor scene eye ray, resume st0 st)
               else (case snd found of
                       None \<Rightarrow> (lastColor st, resume st0 st)
                     | Some i \<Rightarrow>
                         (let object = sceneObjects scene ! i;
                              point = algAdd A eye (algScale A distance ray);
                              normal = algUnit A (objNormalAt object point);
                              shaded = shade A scene eye ray object point normal (depth + 1) st
                          in (fst shaded,
                              resume st0 ((snd shaded)\<lparr>lastColor := fst shaded\<rparr>)))))
      else (lastColor st0, enter (RayTrace eye ray depth) st0))"
| "shade A scene eye ray object point normal depth st0 =
     shadeLoop A scene eye object point normal depth (sceneLights scene)
       (colorMultiplication A
          (materialGetDiffuse (sceneGetMaterial scene (objGetMaterial object))
             (objTextureCoordinateAt object point))
          (sceneGetAmbientLight scene),
        ray, enter (Shade depth) st0)"
| "shadeLoop A scene eye object point normal depth [] (color, ray, st) = (color, st)"
| "shadeLoop A scene eye object point normal depth (intensity # rest) (color, ray, st) =
     (let transparent =
            (if materialGetOpacity (sceneGetMaterial scene (objGetMaterial object)) < 1
             then (let exit = refraction A object point ray
                                (materialGetRefractionIndex
                                   (sceneGetMaterial scene (objGetMaterial object)));
                       traced = rayTrace A scene (fst exit) (snd exit) depth st
                   in (blend A (materialGetOpacity
                                  (sceneGetMaterial scene (objGetMaterial object)))
                         color (fst traced),
                       snd exit, snd traced))
             else (color, ray, st));
          color = directLight A scene eye object point normal intensity (fst transparent);
          st = enter IsInShadow (snd (snd transparent));
          mirrored =
            (if materialGetReflectionFactor (sceneGetMaterial scene (objGetMaterial object)) > 0
             then (let reflecRay = algReflect A (algUnit A (algSub A eye point)) normal;
                       traced = rayTrace A scene point reflecRay (depth + 1) st
                   in (colorAddition A color
                         (colorScale A
                            (materialGetReflectionFactor
                               (sceneGetMaterial scene (objGetMaterial object)))
                            (fst traced)),
                       snd traced))
             else (color, st))
      in shadeLoop A scene eye object point normal depth rest
           (fst mirrored, fst (snd transparent), snd mirrored))"
  by pat_completeness auto

termination
  by (relation "measures
        [\<lambda>x. case x of
                Inl (A, scene, eye, ray, depth, st) \<Rightarrow> 2 * nat (7 - depth)
              | Inr (Inl (A, scene, eye, ray, object, point, normal, depth, st)) \<Rightarrow>
                  2 * nat (7 - depth) + 1
              | Inr (Inr (A, scene, eye, object, point, normal, depth, ls, acc)) \<Rightarrow>
                  2 * nat (7 - depth) + 1,
         \<lambda>x. case x of
                Inl (A, scene, eye, ray, depth, st) \<Rightarrow> 0
              | Inr (Inl (A, scene, eye, ray, object, point, normal, depth, st)) \<Rightarrow>
                  Suc (length (sceneLights scene))
              | Inr (Inr (A, scene, eye, object, point, normal, depth, ls, acc)) \<Rightarrow>
                  length ls]")
     (auto simp: MAX_DEPTH_def)

section \<open>The blocks of one iteration of \<^verbatim>\<open>shade\<close>\<close>

text \<open>
  One iteration of the loop over the lights, block by block as in the source, each block
  taking and returning the loop state (\<^verbatim>\<open>color\<close>, \<^verbatim>\<open>ray\<close>, program state).
  \<open>transparency\<close> is lines 163 to 178.
\<close>

definition transparency ::
  "('v, 'c) Algebra \<Rightarrow> ('v, 't, 'c) Scene \<Rightarrow> ('v, 't) Object \<Rightarrow> 'v \<Rightarrow> int
     \<Rightarrow> 'c \<times> 'v \<times> ('v, 'c) state \<Rightarrow> 'c \<times> 'v \<times> ('v, 'c) state" where
  "transparency A scene object point depth acc =
     (let color = fst acc; ray = fst (snd acc); st = snd (snd acc);
          material = sceneGetMaterial scene (objGetMaterial object);
          refractedIndex = materialGetRefractionIndex material;
          opacity = materialGetOpacity material
      in if opacity < 1
         then (let normal = objNormalAt object point;
                   innerRay = algSnell A ray normal 1.00029 refractedIndex;
                   exitPoint = objInterceptExit object point innerRay;
                   normal = algUnit A (objNormalAt object exitPoint);
                   ray = algSnell A innerRay (algScale A (- 1) normal) refractedIndex 1.00029;
                   traced = rayTrace A scene exitPoint ray depth st;
                   colorOpacity = fst traced;
                   factor = 1 - opacity;
                   intensitycolor = colorScale A factor colorOpacity;
                   colorAux = colorScale A opacity color;
                   color = colorAddition A intensitycolor colorAux
               in (color, ray, snd traced))
         else (color, ray, st))"

text \<open>Lines 152 to 161 and 180 to 212: the shadow test and the diffuse and specular light.\<close>

definition lighting ::
  "('v, 'c) Algebra \<Rightarrow> ('v, 't, 'c) Scene \<Rightarrow> 'v \<Rightarrow> ('v, 't) Object \<Rightarrow> 'v \<Rightarrow> 'v
     \<Rightarrow> ('v, 'c) Light \<Rightarrow> 'c \<times> 'v \<times> ('v, 'c) state \<Rightarrow> 'c \<times> 'v \<times> ('v, 'c) state" where
  "lighting A scene eye object point normal intensity acc =
     (directLight A scene eye object point normal intensity (fst acc),
      fst (snd acc),
      enter IsInShadow (snd (snd acc)))"

text \<open>Lines 215 to 222 (\<^verbatim>\<open>Aplicando Efeito de Espelho\<close>).\<close>

definition mirrorReflection ::
  "('v, 'c) Algebra \<Rightarrow> ('v, 't, 'c) Scene \<Rightarrow> 'v \<Rightarrow> ('v, 't) Object \<Rightarrow> 'v \<Rightarrow> 'v \<Rightarrow> int
     \<Rightarrow> 'c \<times> 'v \<times> ('v, 'c) state \<Rightarrow> 'c \<times> 'v \<times> ('v, 'c) state" where
  "mirrorReflection A scene eye object point normal depth acc =
     (let color = fst acc; ray = fst (snd acc); st = snd (snd acc);
          material = sceneGetMaterial scene (objGetMaterial object);
          reflectionFactor = materialGetReflectionFactor material;
          pointToEyeRay = algUnit A (algSub A eye point)
      in if reflectionFactor > 0
         then (let reflecRay = algReflect A pointToEyeRay normal;
                   traced = rayTrace A scene point reflecRay (depth + 1) st;
                   colorReflec = fst traced;
                   intensitycolor = colorScale A reflectionFactor colorReflec;
                   color = colorAddition A color intensitycolor
               in (color, ray, snd traced))
         else (color, ray, st))"

section \<open>Vocabulary of the statements\<close>

text \<open>
  One iteration of the loop of \<^verbatim>\<open>shade\<close>: the three blocks in the order of the source.
\<close>

definition iteration ::
  "('v, 'c) Algebra \<Rightarrow> ('v, 't, 'c) Scene \<Rightarrow> 'v \<Rightarrow> ('v, 't) Object \<Rightarrow> 'v \<Rightarrow> 'v \<Rightarrow> int
     \<Rightarrow> ('v, 'c) Light \<Rightarrow> 'c \<times> 'v \<times> ('v, 'c) state \<Rightarrow> 'c \<times> 'v \<times> ('v, 'c) state" where
  "iteration A scene eye object point normal depth intensity acc =
     mirrorReflection A scene eye object point normal depth
       (lighting A scene eye object point normal intensity
          (transparency A scene object point depth acc))"

text \<open>
  \<open>inChain d l (k, e)\<close>: the call \<open>e\<close>, made at level \<open>k\<close>, lies in a chain of calls that
  starts at depth \<open>d\<close> and level \<open>l\<close>. It lies at most \<open>MAX_DEPTH - d\<close> levels further; the
  depth of a \<^verbatim>\<open>rayTrace\<close> or \<^verbatim>\<open>shade\<close> has grown from \<open>d\<close> by at least as much as the level
  has grown from \<open>l\<close>; and a \<^verbatim>\<open>shade\<close> has a depth of at most \<^verbatim>\<open>MAX_DEPTH\<close>.
\<close>

definition inChain :: "int \<Rightarrow> nat \<Rightarrow> nat \<times> 'v call \<Rightarrow> bool" where
  "inChain d l x =
     (l \<le> fst x \<and> int (fst x - l) \<le> MAX_DEPTH - d \<and>
      (case snd x of
         RayTrace _ _ d' \<Rightarrow> d \<le> d' \<and> int (fst x - l) \<le> d' - d
       | Shade d' \<Rightarrow> d \<le> d' \<and> int (fst x - l) \<le> d' - d \<and> d' \<le> MAX_DEPTH
       | _ \<Rightarrow> True))"

text \<open>
  \<open>accepted scene eye ray i\<close>: object \<open>i\<close> of the scene passes the test of
  \<^verbatim>\<open>getNearestObject\<close> against the initial \<^verbatim>\<open>closest\<close>: its distance is above the
  self-intersection epsilon and below \<^verbatim>\<open>DBL_MAX\<close>.
\<close>

definition accepted :: "('v, 't, 'c) Scene \<Rightarrow> 'v \<Rightarrow> 'v \<Rightarrow> nat \<Rightarrow> bool" where
  "accepted scene eye ray i =
     (i < length (sceneObjects scene) \<and>
      0.00001 < objIntercept (sceneObjects scene ! i) eye ray \<and>
      objIntercept (sceneObjects scene ! i) eye ray < DBL_MAX)"

text \<open>
  The \<^verbatim>\<open>rayTrace\<close> calls of a record, in the order of the calls: for each its level and
  its depth.
\<close>

fun traceLevels :: "(nat \<times> 'v call) list \<Rightarrow> (nat \<times> int) list" where
  "traceLevels [] = []"
| "traceLevels ((k, RayTrace eye ray d) # es) = (k, d) # traceLevels es"
| "traceLevels (e # es) = traceLevels es"

text \<open>The number of \<^verbatim>\<open>rayTrace\<close> calls of a record after the first, primary one.\<close>

definition recursiveCalls :: "(nat \<times> 'v call) list \<Rightarrow> nat" where
  "recursiveCalls evs = length (traceLevels evs) - 1"

section \<open>Concrete scenes\<close>

text \<open>
  Modelled from the spec: \<^verbatim>\<open>algebra.h\<close>, \<^verbatim>\<open>color.h\<close> and the objects of \<^verbatim>\<open>raytracing.h\<close> are not
  among the sources. For concrete scenes, vectors and colours are triples of reals with the
  Euclidean operations, the reflection of \<open>v\<close> about \<open>n\<close> is \<open>2 (v \<cdot> n) n - v\<close>, and Snell's law
  has its usual vector form. Only the concrete scenes of this section use these; every
  general statement below holds for all collaborators.
\<close>

type_synonym vec = "real \<times> real \<times> real"

fun vecAdd :: "vec \<Rightarrow> vec \<Rightarrow> vec" where
  "vecAdd (a, b, c) (x, y, z) = (a + x, b + y, c + z)"

fun vecSub :: "vec \<Rightarrow> vec \<Rightarrow> vec" where
  "vecSub (a, b, c) (x, y, z) = (a - x, b - y, c - z)"

fun vecMul :: "vec \<Rightarrow> vec \<Rightarrow> vec" where
  "vecMul (a, b, c) (x, y, z) = (a * x, b * y, c * z)"

fun vecScale :: "real \<Rightarrow> vec \<Rightarrow> vec" where
  "vecScale k (x, y, z) = (k * x, k * y, k * z)"

fun vecDot :: "vec \<Rightarrow> vec \<Rightarrow> real" where
  "vecDot (a, b, c) (x, y, z) = a * x + b * y + c * z"

definition vecNorm :: "vec \<Rightarrow> real" where
  "vecNorm v = sqrt (vecDot v v)"

definition vecUnit :: "vec \<Rightarrow> vec" where
  "vecUnit v = vecScale (1 / vecNorm v) v"

definition vecReflect :: "vec \<Rightarrow> vec \<Rightarrow> vec" where
  "vecReflect v n = vecSub (vecScale (2 * vecDot v n) n) v"

definition vecSnell :: "vec \<Rightarrow> vec \<Rightarrow> real \<Rightarrow> real \<Rightarrow> vec" where
  "vecSnell i n n1 n2 =
     (let eta = n1 / n2;
          c = - vecDot n i;
          k = 1 - eta * eta * (1 - c * c)
      in if k < 0 then vecSub i (vecScale (2 * vecDot i n) n)
         else vecAdd (vecScale eta i) (vecScale (eta * c - sqrt k) n))"

definition vecAlgebra :: "(vec, vec) Algebra" where
  "vecAlgebra =
     \<lparr>algAdd = vecAdd, algSub = vecSub, algScale = vecScale, algUnit = vecUnit,
      algDot = vecDot, algNorm = vecNorm, algReflect = vecReflect, algSnell = vecSnell,
      colorScale = vecScale, colorAddition = vecAdd, colorMultiplication = vecMul\<rparr>"

text \<open>
  The horizontal plane \<open>z = h\<close> with normal \<open>(0, 0, n)\<close>: a ray parallel to it misses it
  (\<open>- 1\<close>), any other ray meets it at the parameter \<open>(h - eye\<^sub>z) / ray\<^sub>z\<close>. It has no
  thickness, so a ray leaves it where it entered.
\<close>

definition plane :: "real \<Rightarrow> real \<Rightarrow> (vec, vec) Object" where
  "plane h n =
     \<lparr>objIntercept =
        (\<lambda>eye ray. if snd (snd ray) = 0 then - 1 else (h - snd (snd eye)) / snd (snd ray)),
      objNormalAt = (\<lambda>point. (0, 0, n)),
      objTextureCoordinateAt = (\<lambda>point. point),
      objInterceptExit = (\<lambda>point ray. point),
      objGetMaterial = 0\<rparr>"

text \<open>An object whose intersection distance is \<^verbatim>\<open>DBL_MAX\<close> for every ray.\<close>

definition horizon :: "(vec, vec) Object" where
  "horizon = (plane 0 1)\<lparr>objIntercept := (\<lambda>eye ray. DBL_MAX)\<rparr>"

definition mirror :: "(vec, vec) Material" where
  "mirror =
     \<lparr>materialGetDiffuse = (\<lambda>t. (1 / 5, 1 / 5, 1 / 5)),
      materialGetSpecular = (1, 1, 1),
      materialGetSpecularExponent = 10,
      materialGetReflectionFactor = 1,
      materialGetRefractionIndex = 1,
      materialGetOpacity = 1\<rparr>"

definition glass :: "(vec, vec) Material" where
  "glass =
     \<lparr>materialGetDiffuse = (\<lambda>t. (1 / 5, 1 / 5, 1 / 5)),
      materialGetSpecular = (1, 1, 1),
      materialGetSpecularExponent = 10,
      materialGetReflectionFactor = 1 / 4,
      materialGetRefractionIndex = 3 / 2,
      materialGetOpacity = 1 / 2\<rparr>"

definition lamp :: "(vec, vec) Light" where
  "lamp = \<lparr>lightGetPosition = (0, 0, 5), lightGetColor = (1, 1, 1)\<rparr>"

text \<open>
  Two facing mirrors, the planes \<open>z = 0\<close> and \<open>z = 10\<close>, of reflection factor 1 and opacity 1,
  with one light half way between them.
\<close>

definition twoMirrors :: "(vec, vec, vec) Scene" where
  "twoMirrors =
     \<lparr>sceneObjects = [plane 0 1, plane 10 (- 1)],
      sceneLights = [lamp],
      sceneGetMaterial = (\<lambda>m. mirror),
      sceneGetAmbientLight = (1, 1, 1),
      sceneGetBackgroundColor = (\<lambda>eye ray. (0, 0, 1))\<rparr>"

text \<open>
  A pane of glass, the slab \<open>10 \<le> z \<le> 11\<close> seen from below: a ray enters through the face
  \<open>z = 10\<close>, whose normal points down, and leaves through the face \<open>z = 11\<close>, whose normal
  points up.
\<close>

definition pane :: "(vec, vec) Object" where
  "pane =
     \<lparr>objIntercept =
        (\<lambda>eye ray. if snd (snd ray) = 0 then - 1 else (10 - snd (snd eye)) / snd (snd ray)),
      objNormalAt = (\<lambda>point. (0, 0, if snd (snd point) \<le> 10 then - 1 else 1)),
      objTextureCoordinateAt = (\<lambda>point. point),
      objInterceptExit =
        (\<lambda>point ray. vecAdd point (vecScale ((11 - snd (snd point)) / snd (snd ray)) ray)),
      objGetMaterial = 0\<rparr>"

definition window :: "(vec, vec, vec) Scene" where
  "window = twoMirrors\<lparr>sceneObjects := [pane], sceneGetMaterial := (\<lambda>m. glass)\<rparr>"

definition horizonScene :: "(vec, vec, vec) Scene" where
  "horizonScene = twoMirrors\<lparr>sceneObjects := [horizon]\<rparr>"

text \<open>The state at program start: the global \<^verbatim>\<open>lastColor\<close> is zero, nothing has been called.\<close>

definition initial :: "(vec, vec) state" where
  "initial = \<lparr>lastColor = (0, 0, 0), calls = [], level = 0\<rparr>"


section \<open>Basic facts\<close>

lemma calls_enter [simp]: "calls (enter e st) = calls st @ [(level st, e)]"
  by (simp add: enter_def)

lemma lastColor_enter [simp]: "lastColor (enter e st) = lastColor st"
  by (simp add: enter_def)

lemma level_enter [simp]: "level (enter e st) = level st"
  by (simp add: enter_def)

lemma descend_simps [simp]:
  "calls (descend st) = calls st" "lastColor (descend st) = lastColor st"
  "level (descend st) = level st + 1"
  by (simp_all add: descend_def)

lemma resume_simps [simp]:
  "calls (resume st0 st) = calls st" "lastColor (resume st0 st) = lastColor st"
  "level (resume st0 st) = level st0"
  by (simp_all add: resume_def)

lemma inChain_mono:
  "inChain d' l' x \<Longrightarrow> d \<le> d' \<Longrightarrow> l \<le> l' \<Longrightarrow> int (l' - l) \<le> d' - d \<Longrightarrow> inChain d l x"
  by (auto simp: inChain_def split: call.splits)

lemma DBL_MAX_large: "x \<le> 1000000 \<Longrightarrow> x < DBL_MAX"
proof -
  have "(1000000 :: real) < 2 ^ 20" by simp
  also have "(2 :: real) ^ 20 \<le> 2 ^ 971" by (rule power_increasing) simp_all
  also have "(2 :: real) ^ 971 \<le> (2 ^ 53 - 1) * 2 ^ 971" by simp
  finally show "x \<le> 1000000 \<Longrightarrow> x < DBL_MAX" by (simp add: DBL_MAX_def)
qed

lemma DBL_MAX_neq [simp]: "x \<le> 1000000 \<Longrightarrow> DBL_MAX \<noteq> x"
  using DBL_MAX_large[of x] by simp

section \<open>\<^verbatim>\<open>isInShadow\<close> sums the opacities of the occluders\<close>

lemma shadowLoop_sum:
  "shadowLoop scene objs point r maxD acc =
     acc + (\<Sum>ob\<leftarrow>filter (\<lambda>ob. 0.1 < objIntercept ob point r \<and> objIntercept ob point r < maxD) objs.
              materialGetOpacity (sceneGetMaterial scene (objGetMaterial ob)))"
  by (induction objs arbitrary: acc) (simp_all add: Let_def)

lemma vecNorm_axis [simp]: "vecNorm (0, 0, c) = \<bar>c\<bar>"
  by (simp add: vecNorm_def)

lemma vecUnit_axis [simp]: "c \<noteq> 0 \<Longrightarrow> vecUnit (0, 0, c) = (0, 0, sgn c)"
  by (simp add: vecUnit_def sgn_real_def)

text \<open>
  Claim C4. \<^verbatim>\<open>isInShadow\<close> returns the sum of the material opacities of all scene objects
  whose intersection distance along the direction to the light lies strictly between 0.1
  and the distance from the point to the light. The sum ranges over the whole object list
  and is not clamped; it is 0 when no object qualifies.
\<close>

theorem isInShadow_sum:
  "isInShadow A scene point rayToLight lightLocation =
     (\<Sum>ob\<leftarrow>filter (\<lambda>ob. 0.1 < objIntercept ob point rayToLight \<and>
                         objIntercept ob point rayToLight < algNorm A (algSub A lightLocation point))
                 (sceneObjects scene).
        materialGetOpacity (sceneGetMaterial scene (objGetMaterial ob)))
   \<and> ((\<forall>ob \<in> set (sceneObjects scene).
          \<not> (0.1 < objIntercept ob point rayToLight \<and>
             objIntercept ob point rayToLight < algNorm A (algSub A lightLocation point)))
        \<longrightarrow> isInShadow A scene point rayToLight lightLocation = 0)"
proof -
  have eq: "isInShadow A scene point rayToLight lightLocation =
     (\<Sum>ob\<leftarrow>filter (\<lambda>ob. 0.1 < objIntercept ob point rayToLight \<and>
                         objIntercept ob point rayToLight < algNorm A (algSub A lightLocation point))
                 (sceneObjects scene).
        materialGetOpacity (sceneGetMaterial scene (objGetMaterial ob)))"
    by (simp add: isInShadow_def shadowLoop_sum)
  moreover have "(\<forall>ob \<in> set (sceneObjects scene).
          \<not> (0.1 < objIntercept ob point rayToLight \<and>
             objIntercept ob point rayToLight < algNorm A (algSub A lightLocation point)))
        \<longrightarrow> isInShadow A scene point rayToLight lightLocation = 0"
    unfolding eq by (simp add: filter_False del: not_less)
  ultimately show ?thesis by blast
qed

text \<open>
  From a point between the mirrors one mirror lies before a light at \<open>z = 20\<close>; from below
  both do, and the sum is 2; a light at \<open>z = 8\<close> has no mirror before it.
\<close>

theorem isInShadow_sum_witness:
  "isInShadow vecAlgebra twoMirrors (0, 0, 5) (0, 0, 1) (0, 0, 20) = 1
   \<and> isInShadow vecAlgebra twoMirrors (0, 0, -1) (0, 0, 1) (0, 0, 20) = 2
   \<and> isInShadow vecAlgebra twoMirrors (0, 0, 5) (0, 0, 1) (0, 0, 8) = 0"
  using isInShadow_sum[of vecAlgebra twoMirrors "(0, 0, 5)" "(0, 0, 1)" "(0, 0, 20)"]
        isInShadow_sum[of vecAlgebra twoMirrors "(0, 0, -1)" "(0, 0, 1)" "(0, 0, 20)"]
        isInShadow_sum[of vecAlgebra twoMirrors "(0, 0, 5)" "(0, 0, 1)" "(0, 0, 8)"]
  by (simp add: vecAlgebra_def twoMirrors_def plane_def mirror_def)

section \<open>\<^verbatim>\<open>getNearestObject\<close> finds the first nearest object\<close>

lemma nearestLoop_none:
  "\<forall>ob \<in> set objs. \<not> (0.00001 < objIntercept ob eye ray \<and> objIntercept ob eye ray < c) \<Longrightarrow>
   nearestLoop objs eye ray k (c, p) = (c, p)"
  by (induction objs arbitrary: k) (auto simp: Let_def)

lemma nearestLoop_some:
  "\<exists>ob \<in> set objs. 0.00001 < objIntercept ob eye ray \<and> objIntercept ob eye ray < c \<Longrightarrow>
   \<exists>m < length objs.
      nearestLoop objs eye ray k (c, p) = (objIntercept (objs ! m) eye ray, Some (k + m)) \<and>
      0.00001 < objIntercept (objs ! m) eye ray \<and> objIntercept (objs ! m) eye ray < c \<and>
      (\<forall>j < length objs. 0.00001 < objIntercept (objs ! j) eye ray \<longrightarrow>
           objIntercept (objs ! m) eye ray \<le> objIntercept (objs ! j) eye ray) \<and>
      (\<forall>j < m. objIntercept (objs ! j) eye ray \<noteq> objIntercept (objs ! m) eye ray)"
proof (induction objs arbitrary: k c p)
  case Nil
  then show ?case by simp
next
  case (Cons ob rest)
  let ?D = "\<lambda>ob. objIntercept ob eye ray"
  show ?case
  proof (cases "0.00001 < ?D ob \<and> ?D ob < c")
    case acc: True
    show ?thesis
    proof (cases "\<exists>ob' \<in> set rest. 0.00001 < ?D ob' \<and> ?D ob' < ?D ob")
      case True
      from Cons.IH[OF True, of "k + 1" "Some k"] obtain m where m: "m < length rest"
        "nearestLoop rest eye ray (k + 1) (?D ob, Some k) = (?D (rest ! m), Some (k + 1 + m))"
        "0.00001 < ?D (rest ! m)" "?D (rest ! m) < ?D ob"
        "\<forall>j < length rest. 0.00001 < ?D (rest ! j) \<longrightarrow> ?D (rest ! m) \<le> ?D (rest ! j)"
        "\<forall>j < m. ?D (rest ! j) \<noteq> ?D (rest ! m)"
        by blast
      show ?thesis
        apply (rule exI[of _ "Suc m"])
        using m acc by (auto simp: Let_def nth_Cons' less_Suc_eq_0_disj)
    next
      case False
      then have "nearestLoop rest eye ray (k + 1) (?D ob, Some k) = (?D ob, Some k)"
        by (intro nearestLoop_none) auto
      moreover have "\<forall>j < length rest. 0.00001 < ?D (rest ! j) \<longrightarrow> ?D ob \<le> ?D (rest ! j)"
        using False by (meson nth_mem not_less)
      ultimately show ?thesis
        apply (intro exI[of _ 0])
        using acc by (auto simp: Let_def nth_Cons' less_Suc_eq_0_disj)
    qed
  next
    case rej: False
    with Cons.prems have ex: "\<exists>ob' \<in> set rest. 0.00001 < ?D ob' \<and> ?D ob' < c" by auto
    from Cons.IH[OF ex, of "k + 1" p] obtain m where m: "m < length rest"
        "nearestLoop rest eye ray (k + 1) (c, p) = (?D (rest ! m), Some (k + 1 + m))"
        "0.00001 < ?D (rest ! m)" "?D (rest ! m) < c"
        "\<forall>j < length rest. 0.00001 < ?D (rest ! j) \<longrightarrow> ?D (rest ! m) \<le> ?D (rest ! j)"
        "\<forall>j < m. ?D (rest ! j) \<noteq> ?D (rest ! m)"
      by blast
    show ?thesis
      apply (rule exI[of _ "Suc m"])
      using m rej by (auto simp: Let_def nth_Cons' less_Suc_eq_0_disj)
  qed
qed

lemma getNearestObject_hit:
  assumes "fst (getNearestObject scene eye ray None) \<noteq> DBL_MAX"
  shows "\<exists>i < length (sceneObjects scene). snd (getNearestObject scene eye ray None) = Some i"
proof (cases "\<exists>ob \<in> set (sceneObjects scene).
                0.00001 < objIntercept ob eye ray \<and> objIntercept ob eye ray < DBL_MAX")
  case True
  from nearestLoop_some[OF True, of 0 None] show ?thesis
    by (auto simp: getNearestObject_def)
next
  case False
  then have "getNearestObject scene eye ray None = (DBL_MAX, None)"
    unfolding getNearestObject_def by (intro nearestLoop_none) blast
  with assms show ?thesis by simp
qed

lemma DBL_MAX_epsilon: "0.00001 < DBL_MAX"
  by (rule DBL_MAX_large) simp

text \<open>
  Claim C3, amended. \<^verbatim>\<open>getNearestObject\<close> returns the least intersection distance among the
  scene objects whose distance is strictly above the epsilon 0.00001 and strictly below
  \<^verbatim>\<open>DBL_MAX\<close>, with the first object (in iteration order) that attains it; if no object
  qualifies it returns \<^verbatim>\<open>DBL_MAX\<close> and leaves the object pointer as it was.
\<close>

theorem getNearestObject_nearest:
  "((\<exists>i. accepted scene eye ray i) \<longrightarrow>
      (\<exists>m. accepted scene eye ray m \<and>
           getNearestObject scene eye ray p =
             (objIntercept (sceneObjects scene ! m) eye ray, Some m) \<and>
           (\<forall>j. accepted scene eye ray j \<longrightarrow>
              objIntercept (sceneObjects scene ! m) eye ray
                \<le> objIntercept (sceneObjects scene ! j) eye ray) \<and>
           (\<forall>j < m. objIntercept (sceneObjects scene ! j) eye ray
                     \<noteq> objIntercept (sceneObjects scene ! m) eye ray)))
   \<and> ((\<forall>i. \<not> accepted scene eye ray i) \<longrightarrow> getNearestObject scene eye ray p = (DBL_MAX, p))"
proof (intro conjI impI)
  assume "\<exists>i. accepted scene eye ray i"
  then have "\<exists>ob \<in> set (sceneObjects scene).
      0.00001 < objIntercept ob eye ray \<and> objIntercept ob eye ray < DBL_MAX"
    unfolding accepted_def by (meson nth_mem)
  from nearestLoop_some[OF this, of 0 p] obtain m where m: "m < length (sceneObjects scene)"
    "nearestLoop (sceneObjects scene) eye ray 0 (DBL_MAX, p) =
       (objIntercept (sceneObjects scene ! m) eye ray, Some (0 + m))"
    "0.00001 < objIntercept (sceneObjects scene ! m) eye ray"
    "objIntercept (sceneObjects scene ! m) eye ray < DBL_MAX"
    "\<forall>j < length (sceneObjects scene). 0.00001 < objIntercept (sceneObjects scene ! j) eye ray \<longrightarrow>
       objIntercept (sceneObjects scene ! m) eye ray \<le> objIntercept (sceneObjects scene ! j) eye ray"
    "\<forall>j < m. objIntercept (sceneObjects scene ! j) eye ray
               \<noteq> objIntercept (sceneObjects scene ! m) eye ray"
    by blast
  show "\<exists>m. accepted scene eye ray m \<and>
           getNearestObject scene eye ray p =
             (objIntercept (sceneObjects scene ! m) eye ray, Some m) \<and>
           (\<forall>j. accepted scene eye ray j \<longrightarrow>
              objIntercept (sceneObjects scene ! m) eye ray
                \<le> objIntercept (sceneObjects scene ! j) eye ray) \<and>
           (\<forall>j < m. objIntercept (sceneObjects scene ! j) eye ray
                     \<noteq> objIntercept (sceneObjects scene ! m) eye ray)"
  proof (intro exI[of _ m] conjI)
    show "accepted scene eye ray m" unfolding accepted_def using m(1,3,4) by blast
    show "getNearestObject scene eye ray p = (objIntercept (sceneObjects scene ! m) eye ray, Some m)"
      unfolding getNearestObject_def using m(2) by simp
    show "\<forall>j. accepted scene eye ray j \<longrightarrow>
              objIntercept (sceneObjects scene ! m) eye ray
                \<le> objIntercept (sceneObjects scene ! j) eye ray"
      unfolding accepted_def using m(5) by blast
    show "\<forall>j < m. objIntercept (sceneObjects scene ! j) eye ray
                     \<noteq> objIntercept (sceneObjects scene ! m) eye ray"
      by (rule m(6))
  qed
next
  assume "\<forall>i. \<not> accepted scene eye ray i"
  then have "\<forall>ob \<in> set (sceneObjects scene).
      \<not> (0.00001 < objIntercept ob eye ray \<and> objIntercept ob eye ray < DBL_MAX)"
    unfolding accepted_def by (metis in_set_conv_nth)
  then show "getNearestObject scene eye ray p = (DBL_MAX, p)"
    unfolding getNearestObject_def by (rule nearestLoop_none)
qed

text \<open>
  Between the two mirrors the ray upwards meets the upper mirror, object 1, at distance 5;
  the ray parallel to the mirrors meets nothing, and the pointer keeps its value.
\<close>

theorem getNearestObject_nearest_witness:
  "accepted twoMirrors (0, 0, 5) (0, 0, 1) 1
   \<and> (\<exists>m. accepted twoMirrors (0, 0, 5) (0, 0, 1) m \<and>
           getNearestObject twoMirrors (0, 0, 5) (0, 0, 1) None =
             (objIntercept (sceneObjects twoMirrors ! m) (0, 0, 5) (0, 0, 1), Some m))
   \<and> (\<forall>i. \<not> accepted twoMirrors (0, 0, 5) (1, 0, 0) i)
   \<and> getNearestObject twoMirrors (0, 0, 5) (1, 0, 0) (Some 7) = (DBL_MAX, Some 7)"
proof -
  have a: "accepted twoMirrors (0, 0, 5) (0, 0, 1) 1"
    by (simp add: accepted_def twoMirrors_def plane_def DBL_MAX_large)
  have b: "\<forall>i. \<not> accepted twoMirrors (0, 0, 5) (1, 0, 0) i"
    by (simp add: accepted_def twoMirrors_def plane_def nth_Cons' less_Suc_eq_0_disj)
  from getNearestObject_nearest[of twoMirrors "(0, 0, 5)" "(0, 0, 1)" None]
       getNearestObject_nearest[of twoMirrors "(0, 0, 5)" "(1, 0, 0)" "Some 7"] a b
  show ?thesis by blast
qed

text \<open>
  An object at distance \<^verbatim>\<open>DBL_MAX\<close> exceeds the epsilon, but fails \<^verbatim>\<open>distance < closest\<close>:
  it is not returned, and the pointer keeps its value.
\<close>

theorem getNearestObject_sentinel_counterexample:
  "0.00001 < objIntercept (sceneObjects horizonScene ! 0) (0, 0, 0) (0, 0, 1)
   \<and> getNearestObject horizonScene (0, 0, 0) (0, 0, 1) None = (DBL_MAX, None)"
  using DBL_MAX_epsilon
  by (simp add: horizonScene_def horizon_def twoMirrors_def plane_def getNearestObject_def)

section \<open>The three exits of \<^verbatim>\<open>rayTrace\<close>\<close>

lemma rayTrace_limit:
  "MAX_DEPTH \<le> depth \<Longrightarrow>
   rayTrace A scene eye ray depth st = (lastColor st, enter (RayTrace eye ray depth) st)"
  by simp

lemma rayTrace_miss:
  "depth < MAX_DEPTH \<Longrightarrow> fst (getNearestObject scene eye ray None) = DBL_MAX \<Longrightarrow>
   rayTrace A scene eye ray depth st =
     (sceneGetBackgroundColor scene eye ray,
      resume st (enter GetNearestObject (descend (enter (RayTrace eye ray depth) st))))"
  by (simp add: Let_def)

lemma rayTrace_hit:
  assumes "depth < MAX_DEPTH" "getNearestObject scene eye ray None = (distance, Some i)"
    "distance \<noteq> DBL_MAX"
  shows "rayTrace A scene eye ray depth st =
     (let object = sceneObjects scene ! i;
          point = algAdd A eye (algScale A distance ray);
          normal = algUnit A (objNormalAt object point);
          shaded = shade A scene eye ray object point normal (depth + 1)
                     (enter GetNearestObject (descend (enter (RayTrace eye ray depth) st)))
      in (fst shaded, resume st ((snd shaded)\<lparr>lastColor := fst shaded\<rparr>)))"
  using assms by (simp add: Let_def del: shade.simps)

declare rayTrace.simps [simp del] shade.simps [simp del] shadeLoop.simps(2) [simp del]

text \<open>
  Claim C2. Below the depth limit, when the nearest-intersection query returns the no-hit
  sentinel \<^verbatim>\<open>DBL_MAX\<close> (as it does when no object is accepted), \<^verbatim>\<open>rayTrace\<close> returns the
  background colour of the scene at that origin and direction.
\<close>

theorem rayTrace_no_hit:
  assumes "depth < MAX_DEPTH"
  shows "(fst (getNearestObject scene eye ray None) = DBL_MAX \<longrightarrow>
           fst (rayTrace A scene eye ray depth st) = sceneGetBackgroundColor scene eye ray)
       \<and> ((\<forall>ob \<in> set (sceneObjects scene).
             \<not> (0.00001 < objIntercept ob eye ray \<and> objIntercept ob eye ray < DBL_MAX)) \<longrightarrow>
           fst (rayTrace A scene eye ray depth st) = sceneGetBackgroundColor scene eye ray)"
proof -
  have 1: "fst (getNearestObject scene eye ray None) = DBL_MAX \<Longrightarrow>
           fst (rayTrace A scene eye ray depth st) = sceneGetBackgroundColor scene eye ray"
    using assms by (simp add: rayTrace_miss)
  have "getNearestObject scene eye ray None = (DBL_MAX, None)"
    if "\<forall>ob \<in> set (sceneObjects scene).
             \<not> (0.00001 < objIntercept ob eye ray \<and> objIntercept ob eye ray < DBL_MAX)"
    unfolding getNearestObject_def using that by (rule nearestLoop_none)
  with 1 show ?thesis by simp
qed

text \<open>A ray parallel to the two mirrors hits neither.\<close>

theorem rayTrace_no_hit_witness:
  "(0 :: int) < MAX_DEPTH
   \<and> fst (getNearestObject twoMirrors (0, 0, 5) (1, 0, 0) None) = DBL_MAX
   \<and> fst (rayTrace vecAlgebra twoMirrors (0, 0, 5) (1, 0, 0) 0 initial) = (0, 0, 1)"
proof -
  have d: "(0 :: int) < MAX_DEPTH" by (simp add: MAX_DEPTH_def)
  have m: "fst (getNearestObject twoMirrors (0, 0, 5) (1, 0, 0) None) = DBL_MAX"
    by (simp add: getNearestObject_def twoMirrors_def plane_def)
  from rayTrace_no_hit[OF d, of twoMirrors "(0, 0, 5)" "(1, 0, 0)" vecAlgebra initial] m d
  show ?thesis by (simp add: twoMirrors_def)
qed

text \<open>
  Claim C9, amended. A trace below the depth limit that hits an object leaves in
  \<^verbatim>\<open>lastColor\<close> the colour it returns; a trace that hits nothing returns the background
  colour and leaves \<^verbatim>\<open>lastColor\<close> as it was.
\<close>

theorem rayTrace_lastColor:
  assumes "depth < MAX_DEPTH"
  shows "lastColor (snd (rayTrace A scene eye ray depth st)) =
     (if fst (getNearestObject scene eye ray None) = DBL_MAX then lastColor st
      else fst (rayTrace A scene eye ray depth st))"
  using assms by (simp add: rayTrace.simps Let_def split: option.split)

theorem rayTrace_lastColor_witness:
  "(0 :: int) < MAX_DEPTH
   \<and> lastColor (snd (rayTrace vecAlgebra twoMirrors (0, 0, 5) (0, 0, 1) 0 initial)) =
       fst (rayTrace vecAlgebra twoMirrors (0, 0, 5) (0, 0, 1) 0 initial)"
proof -
  have d: "(0 :: int) < MAX_DEPTH" by (simp add: MAX_DEPTH_def)
  have "fst (getNearestObject twoMirrors (0, 0, 5) (0, 0, 1) None) \<noteq> DBL_MAX"
    using DBL_MAX_large[of 5] by (simp add: getNearestObject_def twoMirrors_def plane_def)
  with rayTrace_lastColor[OF d, of vecAlgebra twoMirrors "(0, 0, 5)" "(0, 0, 1)" initial] d
  show ?thesis by simp
qed

text \<open>
  The primary ray parallel to the mirrors returns the background colour \<open>(0, 0, 1)\<close>, and
  \<^verbatim>\<open>lastColor\<close> is still \<open>(0, 0, 0)\<close>.
\<close>

theorem rayTrace_lastColor_counterexample:
  "fst (rayTrace vecAlgebra twoMirrors (0, 0, 5) (1, 0, 0) 0 initial) = (0, 0, 1)
   \<and> lastColor (snd (rayTrace vecAlgebra twoMirrors (0, 0, 5) (1, 0, 0) 0 initial)) = (0, 0, 0)"
  by (simp add: rayTrace.simps getNearestObject_def twoMirrors_def plane_def MAX_DEPTH_def
        initial_def)


section \<open>Termination and the chain of nested calls\<close>

text \<open>
  The three functions terminate on every input: \<^verbatim>\<open>rayTrace\<close> increments \<^verbatim>\<open>depth\<close> before it
  calls \<^verbatim>\<open>shade\<close>, and \<^verbatim>\<open>shade\<close> calls \<^verbatim>\<open>rayTrace\<close> with a depth of at most \<^verbatim>\<open>MAX_DEPTH\<close> + 1
  only when its own depth is at most \<^verbatim>\<open>MAX_DEPTH\<close>.
\<close>

lemma rayTrace_shade_shadeLoop_total: "rayTrace_shade_shadeLoop_dom x"
  by (rule "rayTrace_shade_shadeLoop.termination"[THEN spec, of "measures
        [\<lambda>x. case x of
                Inl (A, scene, eye, ray, depth, st) \<Rightarrow> 2 * nat (7 - depth)
              | Inr (Inl (A, scene, eye, ray, object, point, normal, depth, st)) \<Rightarrow>
                  2 * nat (7 - depth) + 1
              | Inr (Inr (A, scene, eye, object, point, normal, depth, ls, acc)) \<Rightarrow>
                  2 * nat (7 - depth) + 1,
         \<lambda>x. case x of
                Inl (A, scene, eye, ray, depth, st) \<Rightarrow> 0
              | Inr (Inl (A, scene, eye, ray, object, point, normal, depth, st)) \<Rightarrow>
                  Suc (length (sceneLights scene))
              | Inr (Inr (A, scene, eye, object, point, normal, depth, ls, acc)) \<Rightarrow>
                  length ls]"])
     (auto simp: MAX_DEPTH_def)

text \<open>
  What a call appends to the record: \<^verbatim>\<open>rayTrace\<close> appends its own entry, at the level of its
  caller, and then entries that all lie in a chain starting one level and one depth further;
  it gives back the level it was called at.
\<close>

lemma calls_structure:
  "\<exists>evs. calls (snd (rayTrace A scene eye ray depth st)) =
            calls st @ (level st, RayTrace eye ray depth) # evs
          \<and> level (snd (rayTrace A scene eye ray depth st)) = level st
          \<and> (\<forall>x \<in> set evs. inChain (depth + 1) (level st + 1) x)"
  "\<exists>evs. calls (snd (shade A scene eye ray object point normal depth st)) = calls st @ evs
          \<and> level (snd (shade A scene eye ray object point normal depth st)) = level st
          \<and> (depth \<le> MAX_DEPTH \<longrightarrow> (\<forall>x \<in> set evs. inChain depth (level st) x))"
  "\<exists>evs. calls (snd (shadeLoop A scene eye object point normal depth ls acc)) =
            calls (snd (snd acc)) @ evs
          \<and> level (snd (shadeLoop A scene eye object point normal depth ls acc)) =
              level (snd (snd acc))
          \<and> (depth \<le> MAX_DEPTH \<longrightarrow> (\<forall>x \<in> set evs. inChain depth (level (snd (snd acc))) x))"
proof (induction A scene eye ray depth st and A scene eye ray object point normal depth st
       and A scene eye object point normal depth ls acc rule: rayTrace_shade_shadeLoop.induct)
  case (1 A scene eye ray depth st0)
  let ?found = "getNearestObject scene eye ray None"
  let ?st = "enter GetNearestObject (descend (enter (RayTrace eye ray depth) st0))"
  show ?case
  proof (cases "depth < MAX_DEPTH")
    case False
    then show ?thesis by (simp add: rayTrace.simps)
  next
    case lt: True
    have gno: "inChain (depth + 1) (level st0 + 1) (Suc (level st0), GetNearestObject)"
      using lt by (simp add: inChain_def)
    show ?thesis
    proof (cases "fst ?found = DBL_MAX")
      case True
      with lt gno show ?thesis by (simp add: rayTrace.simps)
    next
      case hit: False
      show ?thesis
      proof (cases "snd ?found")
        case None
        with lt hit gno show ?thesis by (simp add: rayTrace.simps)
      next
        case (Some i)
        let ?point = "algAdd A eye (algScale A (fst ?found) ray)"
        let ?shaded = "shade A scene eye ray (sceneObjects scene ! i) ?point
             (algUnit A (objNormalAt (sceneObjects scene ! i) ?point)) (depth + 1) ?st"
        from "1.IH"[OF lt refl refl refl hit Some refl refl refl] lt
        obtain evs where evs: "calls (snd ?shaded) = calls ?st @ evs"
          "\<forall>x \<in> set evs. inChain (depth + 1) (level st0 + 1) x"
          by auto
        show ?thesis
          apply (rule exI[of _ "(Suc (level st0), GetNearestObject) # evs"])
          using lt hit Some evs gno by (simp add: rayTrace.simps Let_def)
      qed
    qed
  qed
next
  case (2 A scene eye ray object point normal depth st0)
  then obtain evs where evs:
    "calls (snd (shade A scene eye ray object point normal depth st0)) =
       calls (enter (Shade depth) st0) @ evs"
    "level (snd (shade A scene eye ray object point normal depth st0)) = level st0"
    "depth \<le> MAX_DEPTH \<longrightarrow> (\<forall>x \<in> set evs. inChain depth (level st0) x)"
    by (auto simp: shade.simps)
  then show ?case
    by (intro exI[of _ "(level st0, Shade depth) # evs"])
       (simp add: inChain_def[of _ _ "(_, Shade _)"])
next
  case (3 A scene eye object point normal depth color ray st)
  then show ?case by simp
next
  case (4 A scene eye object point normal depth intensity rest color ray st)
  let ?mat = "sceneGetMaterial scene (objGetMaterial object)"
  let ?exit = "refraction A object point ray (materialGetRefractionIndex ?mat)"
  let ?reflec = "algReflect A (algUnit A (algSub A eye point)) normal"
  define x where "x = (if materialGetOpacity ?mat < 1
            then let exit = refraction A object point ray (materialGetRefractionIndex ?mat);
                     traced = rayTrace A scene (fst exit) (snd exit) depth st
                 in (blend A (materialGetOpacity ?mat) color (fst traced), snd exit, snd traced)
            else (color, ray, st))"
  define xa where "xa = directLight A scene eye object point normal intensity (fst x)"
  define xb where "xb = enter IsInShadow (snd (snd x))"
  define xc where "xc = (if 0 < materialGetReflectionFactor ?mat
            then let reflecRay = algReflect A (algUnit A (algSub A eye point)) normal;
                     traced = rayTrace A scene point reflecRay (depth + 1) xb
                 in (colorAddition A xa (colorScale A (materialGetReflectionFactor ?mat) (fst traced)), snd traced)
            else (xa, xb))"
  have unfold: "shadeLoop A scene eye object point normal depth (intensity # rest) (color, ray, st)
      = shadeLoop A scene eye object point normal depth rest (fst xc, fst (snd x), snd xc)"
    by (simp add: shadeLoop.simps x_def xa_def xb_def xc_def Let_def)
  have "\<exists>evs. calls (snd (snd x)) = calls st @ evs \<and> level (snd (snd x)) = level st
          \<and> (depth \<le> MAX_DEPTH \<longrightarrow> (\<forall>y \<in> set evs. inChain depth (level st) y))"
  proof (cases "materialGetOpacity ?mat < 1")
    case True
    from "4.IH"(1)[OF True refl] obtain evs where evs:
      "calls (snd (rayTrace A scene (fst ?exit) (snd ?exit) depth st)) =
         calls st @ (level st, RayTrace (fst ?exit) (snd ?exit) depth) # evs"
      "level (snd (rayTrace A scene (fst ?exit) (snd ?exit) depth st)) = level st"
      "\<forall>y \<in> set evs. inChain (depth + 1) (level st + 1) y" by blast
    have "\<forall>y \<in> set evs. inChain depth (level st) y"
      using evs(3) by (auto intro: inChain_mono)
    then show ?thesis using True evs(1,2)
      by (auto simp: x_def Let_def inChain_def[of _ _ "(_, RayTrace _ _ _)"])
  next
    case False
    then show ?thesis by (simp add: x_def)
  qed
  then obtain e1 where e1: "calls (snd (snd x)) = calls st @ e1" "level (snd (snd x)) = level st"
    "depth \<le> MAX_DEPTH \<longrightarrow> (\<forall>y \<in> set e1. inChain depth (level st) y)" by blast
  have lb: "level xb = level st" by (simp add: xb_def e1(2))
  have "\<exists>evs. calls (snd xc) = calls xb @ evs \<and> level (snd xc) = level st
          \<and> (depth \<le> MAX_DEPTH \<longrightarrow> (\<forall>y \<in> set evs. inChain depth (level st) y))"
  proof (cases "0 < materialGetReflectionFactor ?mat")
    case True
    from "4.IH"(2)[OF x_def xa_def xb_def True refl] obtain evs where evs:
      "calls (snd (rayTrace A scene point ?reflec (depth + 1) xb)) =
         calls xb @ (level xb, RayTrace point ?reflec (depth + 1)) # evs"
      "level (snd (rayTrace A scene point ?reflec (depth + 1) xb)) = level xb"
      "\<forall>y \<in> set evs. inChain (depth + 1 + 1) (level xb + 1) y" by blast
    have "\<forall>y \<in> set evs. inChain depth (level st) y"
      using evs(3) lb by (auto intro: inChain_mono)
    then show ?thesis using True evs(1,2) lb
      by (auto simp: xc_def Let_def inChain_def[of _ _ "(_, RayTrace _ _ _)"])
  next
    case False
    then show ?thesis by (simp add: xc_def lb)
  qed
  then obtain e2 where e2: "calls (snd xc) = calls xb @ e2" "level (snd xc) = level st"
    "depth \<le> MAX_DEPTH \<longrightarrow> (\<forall>y \<in> set e2. inChain depth (level st) y)" by blast
  from "4.IH"(3)[OF x_def xa_def xb_def xc_def] obtain e3 where e3:
    "calls (snd (shadeLoop A scene eye object point normal depth rest
                   (fst xc, fst (snd x), snd xc))) = calls (snd xc) @ e3"
    "level (snd (shadeLoop A scene eye object point normal depth rest
                   (fst xc, fst (snd x), snd xc))) = level (snd xc)"
    "depth \<le> MAX_DEPTH \<longrightarrow> (\<forall>y \<in> set e3. inChain depth (level (snd xc)) y)" by auto
  from e1 e2 e3 show ?case
    unfolding unfold
    by (intro exI[of _ "e1 @ (level st, IsInShadow) # e2 @ e3"])
       (auto simp: xb_def inChain_def[of _ _ "(_, IsInShadow)"])
qed

lemma inChain_level:
  "inChain (depth + 1) (l + 1) x \<Longrightarrow> 0 \<le> depth \<Longrightarrow> fst x \<le> l + 6"
  by (auto simp: inChain_def MAX_DEPTH_def)

lemma inChain_working:
  "inChain (depth + 1) (l + 1) (k, RayTrace e r d) \<Longrightarrow> 0 \<le> depth \<Longrightarrow> d < MAX_DEPTH \<Longrightarrow>
   k \<le> l + 5"
  by (auto simp: inChain_def MAX_DEPTH_def)

text \<open>
  Claim C1, amended. For every scene, ray and starting depth, \<^verbatim>\<open>rayTrace\<close> terminates. A call
  made with a depth of \<^verbatim>\<open>MAX_DEPTH\<close> = 6 or more does no further work: it makes no
  intersection query, no shading and no recursive call, leaves \<^verbatim>\<open>lastColor\<close> as it is and
  returns it. Everything that a call of depth \<open>d\<close> calls, directly or not, lies in a chain
  that starts one level below it with depth \<open>d + 1\<close>: a call \<open>n\<close> levels below the starting
  call has a depth of at least \<open>d + n\<close>, and \<open>n\<close> is at most \<^verbatim>\<open>MAX_DEPTH\<close> - \<open>d\<close>. So, when the
  starting depth is 0 or more, no call lies more than 6 levels below the starting call,
  and no \<^verbatim>\<open>rayTrace\<close> call that does work (one of a depth below 6) lies more than 5 levels
  below it: a chain has at most 6 levels of working calls. From a negative starting depth
  the chain can be longer than 6 levels.
\<close>

theorem rayTrace_depth_limit:
  "rayTrace_shade_shadeLoop_dom (Inl (A, scene, eye, ray, depth, st))
   \<and> (MAX_DEPTH \<le> depth \<longrightarrow>
        rayTrace A scene eye ray depth st = (lastColor st, enter (RayTrace eye ray depth) st))
   \<and> (\<exists>evs. calls (snd (rayTrace A scene eye ray depth st)) =
               calls st @ (level st, RayTrace eye ray depth) # evs
             \<and> (\<forall>x \<in> set evs. inChain (depth + 1) (level st + 1) x)
             \<and> (0 \<le> depth \<longrightarrow>
                  (\<forall>x \<in> set evs. fst x \<le> level st + 6) \<and>
                  (\<forall>k e r d. (k, RayTrace e r d) \<in> set evs \<and> d < MAX_DEPTH
                     \<longrightarrow> k \<le> level st + 5)))"
proof (intro conjI impI)
  show "rayTrace_shade_shadeLoop_dom (Inl (A, scene, eye, ray, depth, st))"
    by (rule rayTrace_shade_shadeLoop_total)
next
  assume "MAX_DEPTH \<le> depth"
  then show "rayTrace A scene eye ray depth st =
               (lastColor st, enter (RayTrace eye ray depth) st)"
    by (rule rayTrace_limit)
next
  from calls_structure(1)[of A scene eye ray depth st] obtain evs where evs:
    "calls (snd (rayTrace A scene eye ray depth st)) =
       calls st @ (level st, RayTrace eye ray depth) # evs"
    "\<forall>x \<in> set evs. inChain (depth + 1) (level st + 1) x" by blast
  show "\<exists>evs. calls (snd (rayTrace A scene eye ray depth st)) =
               calls st @ (level st, RayTrace eye ray depth) # evs
             \<and> (\<forall>x \<in> set evs. inChain (depth + 1) (level st + 1) x)
             \<and> (0 \<le> depth \<longrightarrow>
                  (\<forall>x \<in> set evs. fst x \<le> level st + 6) \<and>
                  (\<forall>k e r d. (k, RayTrace e r d) \<in> set evs \<and> d < MAX_DEPTH
                     \<longrightarrow> k \<le> level st + 5))"
  proof (intro exI[of _ evs] conjI impI ballI allI)
    show "calls (snd (rayTrace A scene eye ray depth st)) =
            calls st @ (level st, RayTrace eye ray depth) # evs" by (rule evs(1))
    show "inChain (depth + 1) (level st + 1) x" if "x \<in> set evs" for x
      using evs(2) that by blast
    show "fst x \<le> level st + 6" if "0 \<le> depth" "x \<in> set evs" for x
      using evs(2) that by (blast intro: inChain_level)
    show "k \<le> level st + 5"
      if "0 \<le> depth" "(k, RayTrace e r d) \<in> set evs \<and> d < MAX_DEPTH" for k e r d
      using evs(2) that by (blast intro: inChain_working)
  qed
qed

section \<open>The two facing mirrors, evaluated\<close>

text \<open>
  Between the mirrors \<open>z = 0\<close> and \<open>z = 10\<close> a vertical ray is reflected up and down. Each
  reflection enters \<^verbatim>\<open>rayTrace\<close> one level further and with a depth that is larger by 2.
\<close>

lemmas evals = rayTrace.simps shade.simps shadeLoop.simps Let_def getNearestObject_def
  twoMirrors_def plane_def mirror_def lamp_def vecAlgebra_def MAX_DEPTH_def initial_def
  isInShadow_def directLight_def diffuseLight_def specularLight_def vecReflect_def enter_def
  descend_def resume_def DBL_MAX_large


lemmas evalScene = shade.simps shadeLoop.simps Let_def getNearestObject_def
  twoMirrors_def plane_def mirror_def lamp_def vecAlgebra_def
  isInShadow_def directLight_def diffuseLight_def specularLight_def vecReflect_def
  DBL_MAX_large

lemma twoMirrors_depth5:
  "rayTrace vecAlgebra twoMirrors (0, 0, 5) (0, 0, 1) 5 initial =
     ((7 / 5, 7 / 5, 7 / 5),
      \<lparr>lastColor = (7 / 5, 7 / 5, 7 / 5),
       calls = [(0, RayTrace (0, 0, 5) (0, 0, 1) 5), (1, GetNearestObject), (1, Shade 6),
                (1, IsInShadow), (1, RayTrace (0, 0, 10) (0, 0, - 1) 7)],
       level = 0\<rparr>)"
  by (simp add: evals)

lemma bounce_up:
  "depth < MAX_DEPTH \<Longrightarrow>
   calls (snd (rayTrace vecAlgebra twoMirrors (0, 0, 5) (0, 0, 1) depth st)) =
   calls (snd (rayTrace vecAlgebra twoMirrors (0, 0, 10) (0, 0, - 1) (2 + depth)
     (enter IsInShadow (enter (Shade (depth + 1)) (enter GetNearestObject
        (descend (enter (RayTrace (0, 0, 5) (0, 0, 1) depth) st)))))))"
  by (subst rayTrace.simps) (simp add: evalScene)

lemma bounce_down:
  "depth < MAX_DEPTH \<Longrightarrow>
   calls (snd (rayTrace vecAlgebra twoMirrors (0, 0, 10) (0, 0, - 1) depth st)) =
   calls (snd (rayTrace vecAlgebra twoMirrors (0, 0, 0) (0, 0, 1) (2 + depth)
     (enter IsInShadow (enter (Shade (depth + 1)) (enter GetNearestObject
        (descend (enter (RayTrace (0, 0, 10) (0, 0, - 1) depth) st)))))))"
  by (subst rayTrace.simps) (simp add: evalScene)

lemma bounce_back:
  "depth < MAX_DEPTH \<Longrightarrow>
   calls (snd (rayTrace vecAlgebra twoMirrors (0, 0, 0) (0, 0, 1) depth st)) =
   calls (snd (rayTrace vecAlgebra twoMirrors (0, 0, 10) (0, 0, - 1) (2 + depth)
     (enter IsInShadow (enter (Shade (depth + 1)) (enter GetNearestObject
        (descend (enter (RayTrace (0, 0, 0) (0, 0, 1) depth) st)))))))"
  by (subst rayTrace.simps) (simp add: evalScene)

text \<open>
  At depth 7 the call is a no-op; at depth 5 the call works, and what it calls lies in the
  chain that starts at depth 6 and level 1.
\<close>

theorem rayTrace_depth_limit_witness:
  "MAX_DEPTH \<le> 7 \<and> (0 :: int) \<le> 5
   \<and> rayTrace vecAlgebra twoMirrors (0, 0, 10) (0, 0, - 1) 7 initial =
       (lastColor initial, enter (RayTrace (0, 0, 10) (0, 0, - 1) 7) initial)
   \<and> calls (snd (rayTrace vecAlgebra twoMirrors (0, 0, 5) (0, 0, 1) 5 initial)) =
       calls initial @ (level initial, RayTrace (0, 0, 5) (0, 0, 1) 5) #
         [(1, GetNearestObject), (1, Shade 6), (1, IsInShadow),
          (1, RayTrace (0, 0, 10) (0, 0, - 1) 7)]
   \<and> inChain 6 1 (1, GetNearestObject :: vec call)
   \<and> inChain 6 1 (1, Shade 6 :: vec call)
   \<and> inChain 6 1 (1, IsInShadow :: vec call)
   \<and> inChain 6 1 (1, RayTrace (0, 0, 10) (0, 0, - 1) 7 :: vec call)"
proof -
  have d: "MAX_DEPTH \<le> 7" by (simp add: MAX_DEPTH_def)
  have "calls (snd (rayTrace vecAlgebra twoMirrors (0, 0, 5) (0, 0, 1) 5 initial)) =
       calls initial @ (level initial, RayTrace (0, 0, 5) (0, 0, 1) 5) #
         [(1, GetNearestObject), (1, Shade 6), (1, IsInShadow),
          (1, RayTrace (0, 0, 10) (0, 0, - 1) 7)]"
    by (simp add: twoMirrors_depth5) (simp add: initial_def)
  moreover have "inChain 6 1 (1, GetNearestObject :: vec call)
      \<and> inChain 6 1 (1, Shade 6 :: vec call)
      \<and> inChain 6 1 (1, IsInShadow :: vec call)
      \<and> inChain 6 1 (1, RayTrace (0, 0, 10) (0, 0, - 1) 7 :: vec call)"
    by (simp add: inChain_def MAX_DEPTH_def)
  ultimately show ?thesis
    using rayTrace_depth_limit[of vecAlgebra twoMirrors "(0, 0, 10)" "(0, 0, - 1)" 7 initial]
      rayTrace_depth_limit[of vecAlgebra twoMirrors "(0, 0, 5)" "(0, 0, 1)" 5 initial] d
    by simp
qed

text \<open>
  From the starting depth -7 the chain between the two mirrors has 8 nested \<^verbatim>\<open>rayTrace\<close>
  calls, 7 of which do work: more than 6 levels.
\<close>

theorem rayTrace_depth_limit_counterexample:
  "traceLevels (calls (snd (rayTrace vecAlgebra twoMirrors (0, 0, 5) (0, 0, 1) (- 7) initial))) =
     [(0, - 7), (1, - 5), (2, - 3), (3, - 1), (4, 1), (5, 3), (6, 5), (7, 7)]"
  by (simp add: bounce_up bounce_down bounce_back rayTrace_limit MAX_DEPTH_def initial_def)

section \<open>The loop of \<^verbatim>\<open>shade\<close>\<close>

text \<open>
  One iteration of the loop is the three blocks, one after the other, and \<^verbatim>\<open>shade\<close> is the
  fold of the iterations over the lights of the scene, from the ambient colour, the ray it
  received and the state in which its entry is recorded.
\<close>

lemma shadeLoop_blocks:
  "shadeLoop A scene eye object point normal depth (intensity # rest) acc =
     shadeLoop A scene eye object point normal depth rest
       (mirrorReflection A scene eye object point normal depth
          (lighting A scene eye object point normal intensity
             (transparency A scene object point depth acc)))"
  by (cases acc)
     (simp add: shadeLoop.simps transparency_def lighting_def mirrorReflection_def
        refraction_def blend_def Let_def)

lemma shadeLoop_fold:
  "shadeLoop A scene eye object point normal depth ls acc =
     (let final = fold (iteration A scene eye object point normal depth) ls acc
      in (fst final, snd (snd final)))"
proof (induction ls arbitrary: acc)
  case Nil
  show ?case by (cases acc) simp
next
  case (Cons intensity rest)
  show ?case by (simp add: shadeLoop_blocks Cons.IH iteration_def)
qed

lemma shade_fold:
  "shade A scene eye ray object point normal depth st =
     (let final = fold (iteration A scene eye object point normal depth) (sceneLights scene)
                    (colorMultiplication A
                       (materialGetDiffuse (sceneGetMaterial scene (objGetMaterial object))
                          (objTextureCoordinateAt object point))
                       (sceneGetAmbientLight scene),
                     ray, enter (Shade depth) st)
      in (fst final, snd (snd final)))"
  by (simp add: shade.simps shadeLoop_fold)

lemmas evalBlocks = evals iteration_def transparency_def lighting_def mirrorReflection_def

lemmas evalWindow = shade.simps shadeLoop.simps Let_def getNearestObject_def
  twoMirrors_def lamp_def vecAlgebra_def isInShadow_def directLight_def diffuseLight_def
  specularLight_def vecReflect_def window_def pane_def glass_def refraction_def blend_def
  vecSnell_def

lemma vecAlgebra_fields:
  "algAdd vecAlgebra = vecAdd" "algSub vecAlgebra = vecSub" "algScale vecAlgebra = vecScale"
  "algUnit vecAlgebra = vecUnit" "algDot vecAlgebra = vecDot" "algNorm vecAlgebra = vecNorm"
  "algReflect vecAlgebra = vecReflect" "algSnell vecAlgebra = vecSnell"
  "colorScale vecAlgebra = vecScale" "colorAddition vecAlgebra = vecAdd"
  "colorMultiplication vecAlgebra = vecMul"
  by (simp_all add: vecAlgebra_def)

lemma window_fields:
  "sceneObjects window = [pane]" "sceneLights window = [lamp]"
  "sceneGetMaterial window m = glass" "sceneGetAmbientLight window = (1, 1, 1)"
  "sceneGetBackgroundColor window eye ray = (0, 0, 1)"
  by (simp_all add: window_def twoMirrors_def)

lemmas evalPane = shade.simps shadeLoop.simps Let_def getNearestObject_def
  vecAlgebra_fields window_fields lamp_def isInShadow_def directLight_def diffuseLight_def
  specularLight_def vecReflect_def pane_def glass_def refraction_def blend_def vecSnell_def

text \<open>A ray that leaves the pane of glass upwards hits nothing.\<close>

lemma window_behind:
  "depth < MAX_DEPTH \<Longrightarrow>
   rayTrace vecAlgebra window (0, 0, 11) (0, 0, 1) depth st =
     ((0, 0, 1),
      resume st (enter GetNearestObject (descend (enter (RayTrace (0, 0, 11) (0, 0, 1) depth) st))))"
  by (subst rayTrace.simps) (simp add: evalWindow)

text \<open>
  Claim C5. When the opacity of the material is below 1, \<^verbatim>\<open>shade\<close> computes in every
  iteration of its loop the transmitted ray from the current ray: Snell's law into the
  object (index 1.00029 to the refraction index of the material) at the normal of the
  point, the exit point of this inner ray, the unit normal at the exit point, and Snell's
  law out of the object (refraction index of the material to 1.00029) at the reversed exit
  normal. It traces this ray from the exit point with \<^verbatim>\<open>rayTrace\<close>, and replaces the
  accumulated colour by (1 - opacity) times the traced colour plus opacity times the
  current colour, and the current ray by the transmitted ray, before the light and the
  mirror block of the iteration.
\<close>

theorem shade_transparency:
  assumes "materialGetOpacity (sceneGetMaterial scene (objGetMaterial object)) < 1"
  shows "shade A scene eye ray object point normal depth st =
     (let material = sceneGetMaterial scene (objGetMaterial object);
          opacity = materialGetOpacity material;
          refractedIndex = materialGetRefractionIndex material;
          final =
            fold (\<lambda>intensity (color, ray', st').
                    let innerRay = algSnell A ray' (objNormalAt object point) 1.00029
                                     refractedIndex;
                        exitPoint = objInterceptExit object point innerRay;
                        exitNormal = algUnit A (objNormalAt object exitPoint);
                        outRay = algSnell A innerRay (algScale A (- 1) exitNormal)
                                   refractedIndex 1.00029;
                        transmitted = rayTrace A scene exitPoint outRay depth st'
                    in mirrorReflection A scene eye object point normal depth
                         (lighting A scene eye object point normal intensity
                            (colorAddition A (colorScale A (1 - opacity) (fst transmitted))
                               (colorScale A opacity color),
                             outRay, snd transmitted)))
                 (sceneLights scene)
                 (colorMultiplication A
                    (materialGetDiffuse material (objTextureCoordinateAt object point))
                    (sceneGetAmbientLight scene),
                  ray, enter (Shade depth) st)
      in (fst final, snd (snd final)))"
proof -
  have "iteration A scene eye object point normal depth =
     (\<lambda>intensity (color, ray', st').
        let innerRay = algSnell A ray' (objNormalAt object point) 1.00029
                         (materialGetRefractionIndex (sceneGetMaterial scene (objGetMaterial object)));
            exitPoint = objInterceptExit object point innerRay;
            exitNormal = algUnit A (objNormalAt object exitPoint);
            outRay = algSnell A innerRay (algScale A (- 1) exitNormal)
                       (materialGetRefractionIndex (sceneGetMaterial scene (objGetMaterial object)))
                       1.00029;
            transmitted = rayTrace A scene exitPoint outRay depth st'
        in mirrorReflection A scene eye object point normal depth
             (lighting A scene eye object point normal intensity
                (colorAddition A
                   (colorScale A
                      (1 - materialGetOpacity (sceneGetMaterial scene (objGetMaterial object)))
                      (fst transmitted))
                   (colorScale A
                      (materialGetOpacity (sceneGetMaterial scene (objGetMaterial object)))
                      color),
                 outRay, snd transmitted)))"
    using assms by (intro ext) (simp add: iteration_def transparency_def Let_def split: prod.split)
  then show ?thesis by (simp add: shade_fold Let_def)
qed

text \<open>
  \<^verbatim>\<open>shade\<close> at the lower face of the pane of glass, at depth 5: the transmitted ray leaves
  the pane at \<open>z = 11\<close> and returns the background colour.
\<close>

theorem shade_transparency_witness:
  "materialGetOpacity (sceneGetMaterial window (objGetMaterial pane)) < 1
   \<and> shade vecAlgebra window (0, 0, 5) (0, 0, 1) pane (0, 0, 10) (0, 0, - 1) 5 initial =
       ((6 / 5, 6 / 5, 17 / 10),
        \<lparr>lastColor = (0, 0, 0),
         calls = [(0, Shade 5), (0, RayTrace (0, 0, 11) (0, 0, 1) 5), (1, GetNearestObject),
                  (0, IsInShadow), (0, RayTrace (0, 0, 10) (0, 0, - 1) 6)],
         level = 0\<rparr>)"
  using shade_transparency[of window pane vecAlgebra "(0, 0, 5)" "(0, 0, 1)" "(0, 0, 10)"
          "(0, 0, - 1)" 5 initial]
  by (simp add: evalPane window_behind rayTrace_limit MAX_DEPTH_def initial_def enter_def
        descend_def resume_def mirrorReflection_def lighting_def)


text \<open>
  Claim C7. In every iteration of the loop of \<^verbatim>\<open>shade\<close> the specular contribution is added
  exactly when the dot product of the reflected light direction with the eye direction is
  positive. It is that dot product to the power of the specular exponent times the
  specular colour, scaled by (1 - shadow factor) exactly when the shadow factor is not
  zero, and never by the opacity; a dot product that is not positive leaves the colour as
  the diffuse block left it. The diffuse contribution, in contrast, is scaled by the
  opacity.
\<close>

theorem shade_specular:
  "shade A scene eye ray object point normal depth st =
     (let material = sceneGetMaterial scene (objGetMaterial object);
          pointToEyeRay = algUnit A (algSub A eye point);
          final =
            fold (\<lambda>intensity acc.
                    let before = transparency A scene object point depth acc;
                        pointToLightRay =
                          algUnit A (algSub A (lightGetPosition intensity) point);
                        shadowFactor =
                          isInShadow A scene point pointToLightRay (lightGetPosition intensity);
                        afterDiffuse =
                          diffuseLight A normal pointToLightRay
                            (materialGetDiffuse material (objTextureCoordinateAt object point))
                            (materialGetOpacity material) shadowFactor (fst before);
                        produto = algDot A (algReflect A pointToLightRay normal) pointToEyeRay;
                        contribution =
                          colorScale A (produto powr materialGetSpecularExponent material)
                            (materialGetSpecular material);
                        afterSpecular =
                          (if produto > 0
                           then colorAddition A afterDiffuse
                                  (if shadowFactor \<noteq> 0
                                   then colorScale A (1 - shadowFactor) contribution
                                   else contribution)
                           else afterDiffuse)
                    in mirrorReflection A scene eye object point normal depth
                         (afterSpecular, fst (snd before), enter IsInShadow (snd (snd before))))
                 (sceneLights scene)
                 (colorMultiplication A
                    (materialGetDiffuse material (objTextureCoordinateAt object point))
                    (sceneGetAmbientLight scene),
                  ray, enter (Shade depth) st)
      in (fst final, snd (snd final)))
   \<and> diffuseLight A normal pointToLightRay diffuse opacity shadowFactor color =
       (if opacity > 0 \<and> algDot A normal pointToLightRay > 0
        then colorAddition A color
               (if shadowFactor \<noteq> 0
                then colorScale A (1 - shadowFactor)
                       (colorScale A opacity
                          (colorScale A (algDot A normal pointToLightRay) diffuse))
                else colorScale A opacity
                       (colorScale A (algDot A normal pointToLightRay) diffuse))
        else color)"
proof -
  have "iteration A scene eye object point normal depth =
     (\<lambda>intensity acc.
        let before = transparency A scene object point depth acc;
            pointToLightRay = algUnit A (algSub A (lightGetPosition intensity) point);
            shadowFactor = isInShadow A scene point pointToLightRay (lightGetPosition intensity);
            afterDiffuse =
              diffuseLight A normal pointToLightRay
                (materialGetDiffuse (sceneGetMaterial scene (objGetMaterial object))
                   (objTextureCoordinateAt object point))
                (materialGetOpacity (sceneGetMaterial scene (objGetMaterial object)))
                shadowFactor (fst before);
            produto = algDot A (algReflect A pointToLightRay normal)
                        (algUnit A (algSub A eye point));
            contribution =
              colorScale A
                (produto powr
                   materialGetSpecularExponent (sceneGetMaterial scene (objGetMaterial object)))
                (materialGetSpecular (sceneGetMaterial scene (objGetMaterial object)));
            afterSpecular =
              (if produto > 0
               then colorAddition A afterDiffuse
                      (if shadowFactor \<noteq> 0
                       then colorScale A (1 - shadowFactor) contribution
                       else contribution)
               else afterDiffuse)
        in mirrorReflection A scene eye object point normal depth
             (afterSpecular, fst (snd before), enter IsInShadow (snd (snd before))))"
    by (intro ext)
       (simp add: iteration_def lighting_def directLight_def specularLight_def Let_def)
  then have "shade A scene eye ray object point normal depth st =
     (let material = sceneGetMaterial scene (objGetMaterial object);
          pointToEyeRay = algUnit A (algSub A eye point);
          final =
            fold (\<lambda>intensity acc.
                    let before = transparency A scene object point depth acc;
                        pointToLightRay =
                          algUnit A (algSub A (lightGetPosition intensity) point);
                        shadowFactor =
                          isInShadow A scene point pointToLightRay (lightGetPosition intensity);
                        afterDiffuse =
                          diffuseLight A normal pointToLightRay
                            (materialGetDiffuse material (objTextureCoordinateAt object point))
                            (materialGetOpacity material) shadowFactor (fst before);
                        produto = algDot A (algReflect A pointToLightRay normal) pointToEyeRay;
                        contribution =
                          colorScale A (produto powr materialGetSpecularExponent material)
                            (materialGetSpecular material);
                        afterSpecular =
                          (if produto > 0
                           then colorAddition A afterDiffuse
                                  (if shadowFactor \<noteq> 0
                                   then colorScale A (1 - shadowFactor) contribution
                                   else contribution)
                           else afterDiffuse)
                    in mirrorReflection A scene eye object point normal depth
                         (afterSpecular, fst (snd before), enter IsInShadow (snd (snd before))))
                 (sceneLights scene)
                 (colorMultiplication A
                    (materialGetDiffuse material (objTextureCoordinateAt object point))
                    (sceneGetAmbientLight scene),
                  ray, enter (Shade depth) st)
      in (fst final, snd (snd final)))"
    by (simp add: shade_fold Let_def)
  moreover have "diffuseLight A normal pointToLightRay diffuse opacity shadowFactor color =
       (if opacity > 0 \<and> algDot A normal pointToLightRay > 0
        then colorAddition A color
               (if shadowFactor \<noteq> 0
                then colorScale A (1 - shadowFactor)
                       (colorScale A opacity
                          (colorScale A (algDot A normal pointToLightRay) diffuse))
                else colorScale A opacity
                       (colorScale A (algDot A normal pointToLightRay) diffuse))
        else color)"
    by (simp add: diffuseLight_def Let_def)
  ultimately show ?thesis by (rule conjI)
qed

text \<open>\<^verbatim>\<open>shade\<close> at the upper mirror, at depth 6, and a diffuse contribution under a shadow factor of 2.\<close>

theorem shade_specular_witness:
  "shade vecAlgebra twoMirrors (0, 0, 5) (0, 0, 1) (plane 10 (- 1)) (0, 0, 10) (0, 0, - 1) 6
     initial =
     ((7 / 5, 7 / 5, 7 / 5),
      \<lparr>lastColor = (0, 0, 0),
       calls = [(0, Shade 6), (0, IsInShadow), (0, RayTrace (0, 0, 10) (0, 0, - 1) 7)],
       level = 0\<rparr>)
   \<and> diffuseLight vecAlgebra (0, 0, - 1) (0, 0, - 1) (1 / 5, 1 / 5, 1 / 5) (1 / 2) 2 (0, 0, 0) =
       (- 1 / 10, - 1 / 10, - 1 / 10)"
  using shade_specular[where A = vecAlgebra and scene = twoMirrors and eye = "(0, 0, 5)"
          and ray = "(0, 0, 1)"
          and object = "plane 10 (- 1)" and point = "(0, 0, 10)" and normal = "(0, 0, - 1)"
          and depth = 6 and st = initial and pointToLightRay = "(0, 0, - 1)"
          and diffuse = "(1 / 5, 1 / 5, 1 / 5)" and opacity = "1 / 2" and shadowFactor = 2
          and color = "(0, 0, 0)"]
  by (simp add: evalBlocks)


text \<open>The entries that a call appends to the record start with the entry of the call.\<close>

lemma rayTrace_calls:
  "\<exists>evs. calls (snd (rayTrace A scene eye ray depth st)) =
            calls st @ (level st, RayTrace eye ray depth) # evs"
  "level (snd (rayTrace A scene eye ray depth st)) = level st"
  using calls_structure(1)[of A scene eye ray depth st] by blast+

lemma shadeLoop_calls:
  "\<exists>evs. calls (snd (shadeLoop A scene eye object point normal depth ls acc)) =
            calls (snd (snd acc)) @ evs"
  using calls_structure(3)[of A scene eye object point normal depth ls acc] by blast

lemma mirrorReflection_calls:
  "\<exists>evs. calls (snd (snd (mirrorReflection A scene eye object point normal depth acc))) =
            calls (snd (snd acc)) @ evs"
proof (cases "materialGetReflectionFactor (sceneGetMaterial scene (objGetMaterial object)) > 0")
  case True
  obtain evs where "calls (snd (rayTrace A scene point
        (algReflect A (algUnit A (algSub A eye point)) normal) (depth + 1) (snd (snd acc)))) =
      calls (snd (snd acc)) @
        (level (snd (snd acc)),
         RayTrace point (algReflect A (algUnit A (algSub A eye point)) normal) (depth + 1)) # evs"
    using rayTrace_calls(1)[of A scene point
            "algReflect A (algUnit A (algSub A eye point)) normal" "depth + 1" "snd (snd acc)"]
    by blast
  with True show ?thesis by (simp add: mirrorReflection_def Let_def)
next
  case False
  then show ?thesis by (simp add: mirrorReflection_def Let_def)
qed

text \<open>
  Claim C6. In every iteration of the loop of \<^verbatim>\<open>shade\<close> the transmitted ray is traced with
  the depth that \<^verbatim>\<open>shade\<close> received, and the reflected ray with \<open>depth + 1\<close>; the colour
  that the reflected ray returns is scaled by the reflection factor and added only when
  that factor is positive, and otherwise the mirror block makes no call and changes
  nothing. The record of calls shows the two depths: with a light in the scene and an
  opacity below 1, the first call of \<^verbatim>\<open>shade\<close> is the \<^verbatim>\<open>rayTrace\<close> of the transmitted ray at
  \<open>depth\<close>; with an opacity of 1 or more and a positive reflection factor, its first
  \<^verbatim>\<open>rayTrace\<close> is the one of the reflected ray at \<open>depth + 1\<close>.
\<close>

theorem shade_recursion_depths:
  "shade A scene eye ray object point normal depth st =
     (let material = sceneGetMaterial scene (objGetMaterial object);
          opacity = materialGetOpacity material;
          reflectionFactor = materialGetReflectionFactor material;
          final =
            fold (\<lambda>intensity (color, ray', st').
                    let exit = refraction A object point ray'
                                 (materialGetRefractionIndex material);
                        transmitted = rayTrace A scene (fst exit) (snd exit) depth st';
                        before =
                          (if opacity < 1
                           then (blend A opacity color (fst transmitted), snd exit,
                                 snd transmitted)
                           else (color, ray', st'));
                        lit = lighting A scene eye object point normal intensity before;
                        reflecRay = algReflect A (algUnit A (algSub A eye point)) normal;
                        reflected = rayTrace A scene point reflecRay (depth + 1) (snd (snd lit))
                    in if reflectionFactor > 0
                       then (colorAddition A (fst lit)
                               (colorScale A reflectionFactor (fst reflected)),
                             fst (snd lit), snd reflected)
                       else lit)
                 (sceneLights scene)
                 (colorMultiplication A
                    (materialGetDiffuse material (objTextureCoordinateAt object point))
                    (sceneGetAmbientLight scene),
                  ray, enter (Shade depth) st)
      in (fst final, snd (snd final)))
   \<and> (let material = sceneGetMaterial scene (objGetMaterial object);
           exit = refraction A object point ray (materialGetRefractionIndex material)
       in sceneLights scene \<noteq> [] \<and> materialGetOpacity material < 1 \<longrightarrow>
            (\<exists>evs. calls (snd (shade A scene eye ray object point normal depth st)) =
                     calls st @ (level st, Shade depth) #
                       (level st, RayTrace (fst exit) (snd exit) depth) # evs))
   \<and> (let material = sceneGetMaterial scene (objGetMaterial object);
           reflecRay = algReflect A (algUnit A (algSub A eye point)) normal
       in sceneLights scene \<noteq> [] \<and> \<not> materialGetOpacity material < 1
          \<and> materialGetReflectionFactor material > 0 \<longrightarrow>
            (\<exists>evs. calls (snd (shade A scene eye ray object point normal depth st)) =
                     calls st @ (level st, Shade depth) # (level st, IsInShadow) #
                       (level st, RayTrace point reflecRay (depth + 1)) # evs))"
proof (intro conjI)
  let ?m = "sceneGetMaterial scene (objGetMaterial object)"
  let ?seed = "colorMultiplication A
                 (materialGetDiffuse ?m (objTextureCoordinateAt object point))
                 (sceneGetAmbientLight scene)"
  let ?acc = "(?seed, ray, enter (Shade depth) st)"
  have "iteration A scene eye object point normal depth =
     (\<lambda>intensity (color, ray', st').
        let exit = refraction A object point ray' (materialGetRefractionIndex ?m);
            transmitted = rayTrace A scene (fst exit) (snd exit) depth st';
            before =
              (if materialGetOpacity ?m < 1
               then (blend A (materialGetOpacity ?m) color (fst transmitted), snd exit,
                     snd transmitted)
               else (color, ray', st'));
            lit = lighting A scene eye object point normal intensity before;
            reflecRay = algReflect A (algUnit A (algSub A eye point)) normal;
            reflected = rayTrace A scene point reflecRay (depth + 1) (snd (snd lit))
        in if materialGetReflectionFactor ?m > 0
           then (colorAddition A (fst lit)
                   (colorScale A (materialGetReflectionFactor ?m) (fst reflected)),
                 fst (snd lit), snd reflected)
           else lit)"
    by (intro ext)
       (simp add: iteration_def transparency_def mirrorReflection_def refraction_def blend_def
          Let_def split: prod.split)
  then show "shade A scene eye ray object point normal depth st =
     (let material = sceneGetMaterial scene (objGetMaterial object);
          opacity = materialGetOpacity material;
          reflectionFactor = materialGetReflectionFactor material;
          final =
            fold (\<lambda>intensity (color, ray', st').
                    let exit = refraction A object point ray'
                                 (materialGetRefractionIndex material);
                        transmitted = rayTrace A scene (fst exit) (snd exit) depth st';
                        before =
                          (if opacity < 1
                           then (blend A opacity color (fst transmitted), snd exit,
                                 snd transmitted)
                           else (color, ray', st'));
                        lit = lighting A scene eye object point normal intensity before;
                        reflecRay = algReflect A (algUnit A (algSub A eye point)) normal;
                        reflected = rayTrace A scene point reflecRay (depth + 1) (snd (snd lit))
                    in if reflectionFactor > 0
                       then (colorAddition A (fst lit)
                               (colorScale A reflectionFactor (fst reflected)),
                             fst (snd lit), snd reflected)
                       else lit)
                 (sceneLights scene)
                 (colorMultiplication A
                    (materialGetDiffuse material (objTextureCoordinateAt object point))
                    (sceneGetAmbientLight scene),
                  ray, enter (Shade depth) st)
      in (fst final, snd (snd final)))"
    by (simp add: shade_fold Let_def)
  show "let material = sceneGetMaterial scene (objGetMaterial object);
            exit = refraction A object point ray (materialGetRefractionIndex material)
        in sceneLights scene \<noteq> [] \<and> materialGetOpacity material < 1 \<longrightarrow>
            (\<exists>evs. calls (snd (shade A scene eye ray object point normal depth st)) =
                     calls st @ (level st, Shade depth) #
                       (level st, RayTrace (fst exit) (snd exit) depth) # evs)"
  proof (unfold Let_def, intro impI, elim conjE)
    let ?exit = "refraction A object point ray (materialGetRefractionIndex ?m)"
    assume ne: "sceneLights scene \<noteq> []" and op: "materialGetOpacity ?m < 1"
    obtain intensity rest where ls: "sceneLights scene = intensity # rest"
      using ne by (cases "sceneLights scene") auto
    let ?t = "transparency A scene object point depth ?acc"
    let ?l = "lighting A scene eye object point normal intensity ?t"
    let ?r = "mirrorReflection A scene eye object point normal depth ?l"
    obtain e1 where e1: "calls (snd (rayTrace A scene (fst ?exit) (snd ?exit) depth
          (enter (Shade depth) st))) =
        calls (enter (Shade depth) st) @
          (level (enter (Shade depth) st), RayTrace (fst ?exit) (snd ?exit) depth) # e1"
      using rayTrace_calls(1)[of A scene "fst ?exit" "snd ?exit" depth "enter (Shade depth) st"]
      by blast
    have t: "calls (snd (snd ?t)) =
        calls st @ (level st, Shade depth) # (level st, RayTrace (fst ?exit) (snd ?exit) depth) # e1"
      using op e1 by (simp add: transparency_def refraction_def Let_def)
    obtain e2 where e2: "calls (snd (snd ?r)) = calls (snd (snd ?l)) @ e2"
      using mirrorReflection_calls[of A scene eye object point normal depth ?l] by blast
    obtain e3 where e3: "calls (snd (shadeLoop A scene eye object point normal depth rest ?r)) =
        calls (snd (snd ?r)) @ e3"
      using shadeLoop_calls[of A scene eye object point normal depth rest ?r] by blast
    have "shade A scene eye ray object point normal depth st =
        shadeLoop A scene eye object point normal depth rest ?r"
      by (simp add: shade.simps ls shadeLoop_blocks iteration_def)
    then show "\<exists>evs. calls (snd (shade A scene eye ray object point normal depth st)) =
                     calls st @ (level st, Shade depth) #
                       (level st, RayTrace (fst ?exit) (snd ?exit) depth) # evs"
      using t e2 e3 by (simp add: lighting_def)
  qed
  show "let material = sceneGetMaterial scene (objGetMaterial object);
            reflecRay = algReflect A (algUnit A (algSub A eye point)) normal
        in sceneLights scene \<noteq> [] \<and> \<not> materialGetOpacity material < 1
           \<and> materialGetReflectionFactor material > 0 \<longrightarrow>
            (\<exists>evs. calls (snd (shade A scene eye ray object point normal depth st)) =
                     calls st @ (level st, Shade depth) # (level st, IsInShadow) #
                       (level st, RayTrace point reflecRay (depth + 1)) # evs)"
  proof (unfold Let_def, intro impI, elim conjE)
    let ?reflecRay = "algReflect A (algUnit A (algSub A eye point)) normal"
    assume ne: "sceneLights scene \<noteq> []" and op: "\<not> materialGetOpacity ?m < 1"
      and rf: "materialGetReflectionFactor ?m > 0"
    obtain intensity rest where ls: "sceneLights scene = intensity # rest"
      using ne by (cases "sceneLights scene") auto
    let ?t = "transparency A scene object point depth ?acc"
    let ?l = "lighting A scene eye object point normal intensity ?t"
    let ?r = "mirrorReflection A scene eye object point normal depth ?l"
    have l: "snd (snd ?l) = enter IsInShadow (enter (Shade depth) st)"
      using op by (simp add: transparency_def lighting_def Let_def)
    obtain e1 where e1: "calls (snd (rayTrace A scene point ?reflecRay (depth + 1)
          (enter IsInShadow (enter (Shade depth) st)))) =
        calls (enter IsInShadow (enter (Shade depth) st)) @
          (level (enter IsInShadow (enter (Shade depth) st)),
           RayTrace point ?reflecRay (depth + 1)) # e1"
      using rayTrace_calls(1)[of A scene point ?reflecRay "depth + 1"
              "enter IsInShadow (enter (Shade depth) st)"]
      by blast
    have r: "calls (snd (snd ?r)) =
        calls st @ (level st, Shade depth) # (level st, IsInShadow) #
          (level st, RayTrace point ?reflecRay (depth + 1)) # e1"
      using rf e1 by (simp add: mirrorReflection_def Let_def l)
    obtain e3 where e3: "calls (snd (shadeLoop A scene eye object point normal depth rest ?r)) =
        calls (snd (snd ?r)) @ e3"
      using shadeLoop_calls[of A scene eye object point normal depth rest ?r] by blast
    have "shade A scene eye ray object point normal depth st =
        shadeLoop A scene eye object point normal depth rest ?r"
      by (simp add: shade.simps ls shadeLoop_blocks iteration_def)
    then show "\<exists>evs. calls (snd (shade A scene eye ray object point normal depth st)) =
                     calls st @ (level st, Shade depth) # (level st, IsInShadow) #
                       (level st, RayTrace point ?reflecRay (depth + 1)) # evs"
      using r e3 by simp
  qed
qed


text \<open>Nor does a ray that leaves its lower face downwards.\<close>

lemma window_below:
  "depth < MAX_DEPTH \<Longrightarrow>
   rayTrace vecAlgebra window (0, 0, 10) (0, 0, - 1) depth st =
     ((0, 0, 1),
      resume st (enter GetNearestObject
        (descend (enter (RayTrace (0, 0, 10) (0, 0, - 1) depth) st))))"
  by (subst rayTrace.simps) (simp add: evalWindow)

text \<open>
  \<^verbatim>\<open>shade\<close> at the lower face of the pane of glass, at depth 4, traces the transmitted ray
  at depth 4 and the reflected ray at depth 5; at the upper mirror, at depth 5, it traces
  the reflected ray at depth 6.
\<close>

theorem shade_recursion_depths_witness:
  "sceneLights window \<noteq> []
   \<and> materialGetOpacity (sceneGetMaterial window (objGetMaterial pane)) < 1
   \<and> refraction vecAlgebra pane (0, 0, 10) (0, 0, 1)
       (materialGetRefractionIndex (sceneGetMaterial window (objGetMaterial pane))) =
       ((0, 0, 11), (0, 0, 1))
   \<and> shade vecAlgebra window (0, 0, 5) (0, 0, 1) pane (0, 0, 10) (0, 0, - 1) 4 initial =
       ((6 / 5, 6 / 5, 39 / 20),
        \<lparr>lastColor = (0, 0, 0),
         calls = [(0, Shade 4), (0, RayTrace (0, 0, 11) (0, 0, 1) 4), (1, GetNearestObject),
                  (0, IsInShadow), (0, RayTrace (0, 0, 10) (0, 0, - 1) 5),
                  (1, GetNearestObject)],
         level = 0\<rparr>)
   \<and> sceneLights twoMirrors \<noteq> []
   \<and> \<not> materialGetOpacity (sceneGetMaterial twoMirrors (objGetMaterial (plane 10 (- 1)))) < 1
   \<and> materialGetReflectionFactor (sceneGetMaterial twoMirrors (objGetMaterial (plane 10 (- 1))))
       > 0
   \<and> shade vecAlgebra twoMirrors (0, 0, 5) (0, 0, 1) (plane 10 (- 1)) (0, 0, 10) (0, 0, - 1) 5
       initial =
       ((7 / 5, 7 / 5, 7 / 5),
        \<lparr>lastColor = (0, 0, 0),
         calls = [(0, Shade 5), (0, IsInShadow), (0, RayTrace (0, 0, 10) (0, 0, - 1) 6)],
         level = 0\<rparr>)"
proof -
  have 1: "shade vecAlgebra window (0, 0, 5) (0, 0, 1) pane (0, 0, 10) (0, 0, - 1) 4 initial =
       ((6 / 5, 6 / 5, 39 / 20),
        \<lparr>lastColor = (0, 0, 0),
         calls = [(0, Shade 4), (0, RayTrace (0, 0, 11) (0, 0, 1) 4), (1, GetNearestObject),
                  (0, IsInShadow), (0, RayTrace (0, 0, 10) (0, 0, - 1) 5),
                  (1, GetNearestObject)],
         level = 0\<rparr>)"
    by (simp add: evalPane window_behind window_below MAX_DEPTH_def initial_def enter_def
          descend_def resume_def)
  have 2: "shade vecAlgebra twoMirrors (0, 0, 5) (0, 0, 1) (plane 10 (- 1)) (0, 0, 10) (0, 0, - 1) 5
       initial =
       ((7 / 5, 7 / 5, 7 / 5),
        \<lparr>lastColor = (0, 0, 0),
         calls = [(0, Shade 5), (0, IsInShadow), (0, RayTrace (0, 0, 10) (0, 0, - 1) 6)],
         level = 0\<rparr>)"
    by (simp add: evalScene rayTrace_limit MAX_DEPTH_def initial_def enter_def)
  have 3: "sceneLights window \<noteq> []
     \<and> materialGetOpacity (sceneGetMaterial window (objGetMaterial pane)) < 1
     \<and> refraction vecAlgebra pane (0, 0, 10) (0, 0, 1)
         (materialGetRefractionIndex (sceneGetMaterial window (objGetMaterial pane))) =
         ((0, 0, 11), (0, 0, 1))"
    by (simp add: window_fields vecAlgebra_fields glass_def pane_def refraction_def vecSnell_def
          Let_def)
  have 4: "sceneLights twoMirrors \<noteq> []
     \<and> \<not> materialGetOpacity (sceneGetMaterial twoMirrors (objGetMaterial (plane 10 (- 1)))) < 1
     \<and> materialGetReflectionFactor (sceneGetMaterial twoMirrors (objGetMaterial (plane 10 (- 1))))
         > 0"
    by (simp add: twoMirrors_def mirror_def)
  from shade_recursion_depths[of vecAlgebra window "(0, 0, 5)" "(0, 0, 1)" pane "(0, 0, 10)"
         "(0, 0, - 1)" 4 initial]
       shade_recursion_depths[of vecAlgebra twoMirrors "(0, 0, 5)" "(0, 0, 1)" "plane 10 (- 1)"
         "(0, 0, 10)" "(0, 0, - 1)" 5 initial]
       1 2 3 4
  show ?thesis by simp
qed

section \<open>The colours of the lights\<close>

text \<open>
  No function reads the lights of the scene except the loop of \<^verbatim>\<open>shade\<close>, and the loop uses
  the position of a light only.
\<close>

lemma shadowLoop_lights [simp]:
  "shadowLoop (scene\<lparr>sceneLights := ls'\<rparr>) objs point r maxD acc =
   shadowLoop scene objs point r maxD acc"
  by (induction objs arbitrary: acc) (simp_all add: Let_def)

lemma isInShadow_lights [simp]:
  "isInShadow A (scene\<lparr>sceneLights := ls'\<rparr>) point r l = isInShadow A scene point r l"
  by (simp add: isInShadow_def)

lemma getNearestObject_lights [simp]:
  "getNearestObject (scene\<lparr>sceneLights := ls'\<rparr>) eye ray p = getNearestObject scene eye ray p"
  by (simp add: getNearestObject_def)

lemma directLight_lights:
  "lightGetPosition intensity' = lightGetPosition intensity \<Longrightarrow>
   directLight A (scene\<lparr>sceneLights := ls'\<rparr>) eye object point normal intensity' color =
   directLight A scene eye object point normal intensity color"
  by (simp add: directLight_def Let_def)

lemma shadeLoop_lights:
  assumes T0: "\<And>e r s. rayTrace A (scene\<lparr>sceneLights := ls'\<rparr>) e r depth s = rayTrace A scene e r depth s"
      and T1: "\<And>e r s. rayTrace A (scene\<lparr>sceneLights := ls'\<rparr>) e r (depth + 1) s =
                        rayTrace A scene e r (depth + 1) s"
  shows "map lightGetPosition ms' = map lightGetPosition ms \<Longrightarrow>
         shadeLoop A (scene\<lparr>sceneLights := ls'\<rparr>) eye object point normal depth ms' acc =
         shadeLoop A scene eye object point normal depth ms acc"
proof (induction ms arbitrary: ms' acc)
  case Nil
  then show ?case by (cases acc) simp
next
  case (Cons intensity rest)
  then obtain intensity' rest' where ms': "ms' = intensity' # rest'"
    "lightGetPosition intensity' = lightGetPosition intensity"
    "map lightGetPosition rest' = map lightGetPosition rest"
    by (cases ms') auto
  have 1: "transparency A (scene\<lparr>sceneLights := ls'\<rparr>) object point depth acc =
           transparency A scene object point depth acc"
    by (simp add: transparency_def Let_def T0)
  have 2: "lighting A (scene\<lparr>sceneLights := ls'\<rparr>) eye object point normal intensity' x =
           lighting A scene eye object point normal intensity x" for x
    by (simp add: lighting_def directLight_lights[OF ms'(2)])
  have 3: "mirrorReflection A (scene\<lparr>sceneLights := ls'\<rparr>) eye object point normal depth x =
           mirrorReflection A scene eye object point normal depth x" for x
    by (simp add: mirrorReflection_def Let_def T1)
  show ?case
    unfolding ms'(1) shadeLoop_blocks 1 2 3 by (rule Cons.IH[OF ms'(3)])
qed

lemma rayTrace_lights:
  assumes "map lightGetPosition ls' = map lightGetPosition (sceneLights scene)"
  shows "rayTrace A (scene\<lparr>sceneLights := ls'\<rparr>) eye ray depth st = rayTrace A scene eye ray depth st"
proof (induction "nat (MAX_DEPTH - depth)" arbitrary: depth eye ray st rule: less_induct)
  case less
  show ?case
  proof (cases "depth < MAX_DEPTH")
    case False
    then show ?thesis by (simp add: rayTrace.simps)
  next
    case True
    have T0: "rayTrace A (scene\<lparr>sceneLights := ls'\<rparr>) e r (depth + 1) s =
              rayTrace A scene e r (depth + 1) s" for e r s
      using True by (intro less) simp
    have T1: "rayTrace A (scene\<lparr>sceneLights := ls'\<rparr>) e r (depth + 1 + 1) s =
              rayTrace A scene e r (depth + 1 + 1) s" for e r s
      using True by (intro less) simp
    have sh: "shade A (scene\<lparr>sceneLights := ls'\<rparr>) e r object point normal (depth + 1) s =
          shade A scene e r object point normal (depth + 1) s" for e r object point normal s
      unfolding shade.simps using shadeLoop_lights[OF T0 T1 assms] by simp
    show ?thesis
      by (simp add: rayTrace.simps[of _ _ _ _ depth] Let_def sh split: option.split)
  qed
qed

text \<open>
  Claim C10. The result of \<^verbatim>\<open>rayTrace\<close> does not depend on the colours of the lights: on two
  scenes that differ at most in the colours of their lights (same objects, materials,
  ambient light, background, and light positions in the same order) \<^verbatim>\<open>rayTrace\<close> returns
  the same colour and the same state. \<^verbatim>\<open>shade\<close> fetches \<^verbatim>\<open>lightGetColor\<close> into
  \<^verbatim>\<open>intensitycolor\<close> and overwrites it before every use.
\<close>

theorem rayTrace_light_colors:
  fixes scene scene' :: "('v, 't, 'c) Scene"
  assumes "sceneObjects scene' = sceneObjects scene"
    and "sceneGetMaterial scene' = sceneGetMaterial scene"
    and "sceneGetAmbientLight scene' = sceneGetAmbientLight scene"
    and "sceneGetBackgroundColor scene' = sceneGetBackgroundColor scene"
    and "map lightGetPosition (sceneLights scene') = map lightGetPosition (sceneLights scene)"
  shows "rayTrace A scene' eye ray depth st = rayTrace A scene eye ray depth st"
proof -
  have "scene' = scene\<lparr>sceneLights := sceneLights scene'\<rparr>"
    using assms(1-4) by (intro Scene.equality) simp_all
  then show ?thesis
    using rayTrace_lights[OF assms(5), of A eye ray depth st] by simp
qed

text \<open>The two mirrors under a red lamp instead of the white one.\<close>

theorem rayTrace_light_colors_witness:
  "rayTrace vecAlgebra (twoMirrors\<lparr>sceneLights := [lamp\<lparr>lightGetColor := (1, 0, 0)\<rparr>]\<rparr>)
     (0, 0, 5) (0, 0, 1) 0 initial =
   rayTrace vecAlgebra twoMirrors (0, 0, 5) (0, 0, 1) 0 initial"
  using rayTrace_light_colors[of "twoMirrors\<lparr>sceneLights := [lamp\<lparr>lightGetColor := (1, 0, 0)\<rparr>]\<rparr>"
          twoMirrors vecAlgebra "(0, 0, 5)" "(0, 0, 1)" 0 initial]
  by (simp add: twoMirrors_def)


section \<open>Mirror recursion\<close>

text \<open>The primary ray between the two mirrors, with every call it makes.\<close>

lemma twoMirrors_depth0:
  "rayTrace vecAlgebra twoMirrors (0, 0, 5) (0, 0, 1) 0 initial =
     ((21 / 5, 21 / 5, 21 / 5),
      \<lparr>lastColor = (21 / 5, 21 / 5, 21 / 5),
       calls = [(0, RayTrace (0, 0, 5) (0, 0, 1) 0), (1, GetNearestObject), (1, Shade 1),
                (1, IsInShadow),
                (1, RayTrace (0, 0, 10) (0, 0, - 1) 2), (2, GetNearestObject), (2, Shade 3),
                (2, IsInShadow),
                (2, RayTrace (0, 0, 0) (0, 0, 1) 4), (3, GetNearestObject), (3, Shade 5),
                (3, IsInShadow),
                (3, RayTrace (0, 0, 10) (0, 0, - 1) 6)],
       level = 0\<rparr>)"
  by (simp add: evals)

text \<open>
  Claim C8. Between the two facing mirrors, whose material has reflection factor 1 and
  opacity 1, the primary ray (depth 0) terminates with the colour (21/5, 21/5, 21/5) and
  makes 3 recursive \<^verbatim>\<open>rayTrace\<close> calls, at the depths 2, 4 and 6, not \<^verbatim>\<open>MAX_DEPTH\<close> = 6 of
  them: \<^verbatim>\<open>rayTrace\<close> increments the depth and the mirror block of \<^verbatim>\<open>shade\<close> passes
  \<open>depth + 1\<close>, so that each reflection costs 2 of the 6.
\<close>

theorem mirror_recursion_calls:
  "materialGetReflectionFactor (sceneGetMaterial twoMirrors 0) = 1
   \<and> materialGetOpacity (sceneGetMaterial twoMirrors 0) = 1
   \<and> fst (rayTrace vecAlgebra twoMirrors (0, 0, 5) (0, 0, 1) 0 initial) = (21 / 5, 21 / 5, 21 / 5)
   \<and> traceLevels (calls (snd (rayTrace vecAlgebra twoMirrors (0, 0, 5) (0, 0, 1) 0 initial))) =
       [(0, 0), (1, 2), (2, 4), (3, 6)]
   \<and> recursiveCalls (calls (snd (rayTrace vecAlgebra twoMirrors (0, 0, 5) (0, 0, 1) 0 initial))) = 3
   \<and> recursiveCalls (calls (snd (rayTrace vecAlgebra twoMirrors (0, 0, 5) (0, 0, 1) 0 initial)))
       \<noteq> nat MAX_DEPTH"
  by (simp add: twoMirrors_depth0 recursiveCalls_def)
     (simp add: twoMirrors_def mirror_def MAX_DEPTH_def)

section \<open>The record of calls is a ghost\<close>

text \<open>
  The colour that \<^verbatim>\<open>rayTrace\<close> returns and the \<^verbatim>\<open>lastColor\<close> it leaves depend on the
  \<^verbatim>\<open>lastColor\<close> it finds only, never on the calls recorded so far.
\<close>

lemma shadeLoop_ghost:
  assumes T0: "\<And>e r s s'. lastColor s' = lastColor s \<Longrightarrow>
                 fst (rayTrace A scene e r depth s') = fst (rayTrace A scene e r depth s) \<and>
                 lastColor (snd (rayTrace A scene e r depth s')) =
                 lastColor (snd (rayTrace A scene e r depth s))"
      and T1: "\<And>e r s s'. lastColor s' = lastColor s \<Longrightarrow>
                 fst (rayTrace A scene e r (depth + 1) s') = fst (rayTrace A scene e r (depth + 1) s) \<and>
                 lastColor (snd (rayTrace A scene e r (depth + 1) s')) =
                 lastColor (snd (rayTrace A scene e r (depth + 1) s))"
  shows "lastColor st' = lastColor st \<Longrightarrow>
         fst (shadeLoop A scene eye object point normal depth ls (color, ray, st')) =
         fst (shadeLoop A scene eye object point normal depth ls (color, ray, st)) \<and>
         lastColor (snd (shadeLoop A scene eye object point normal depth ls (color, ray, st'))) =
         lastColor (snd (shadeLoop A scene eye object point normal depth ls (color, ray, st)))"
proof (induction ls arbitrary: color ray st st')
  case Nil
  then show ?case by simp
next
  case (Cons intensity rest)
  let ?step = "\<lambda>s. mirrorReflection A scene eye object point normal depth
                 (lighting A scene eye object point normal intensity
                    (transparency A scene object point depth (color, ray, s)))"
  have 1: "fst (transparency A scene object point depth (color, ray, st')) =
           fst (transparency A scene object point depth (color, ray, st)) \<and>
           fst (snd (transparency A scene object point depth (color, ray, st'))) =
           fst (snd (transparency A scene object point depth (color, ray, st))) \<and>
           lastColor (snd (snd (transparency A scene object point depth (color, ray, st')))) =
           lastColor (snd (snd (transparency A scene object point depth (color, ray, st))))"
    using T0[OF Cons.prems] Cons.prems by (simp add: transparency_def Let_def)
  have 2: "fst (?step st') = fst (?step st) \<and> fst (snd (?step st')) = fst (snd (?step st)) \<and>
           lastColor (snd (snd (?step st'))) = lastColor (snd (snd (?step st)))"
    using 1 T1[where s' = "enter IsInShadow (snd (snd (transparency A scene object point depth (color, ray, st'))))"
                 and s = "enter IsInShadow (snd (snd (transparency A scene object point depth (color, ray, st))))"]
    by (simp add: mirrorReflection_def lighting_def Let_def)
  obtain c r s where s: "?step st = (c, r, s)" by (cases "?step st")
  obtain c' r' s' where s': "?step st' = (c', r', s')" by (cases "?step st'")
  from 2 s s' have "c' = c" "r' = r" "lastColor s' = lastColor s" by simp_all
  with Cons.IH[of s' s c r] show ?case
    by (simp add: shadeLoop_blocks s s')
qed

lemma rayTrace_ghost:
  "lastColor st' = lastColor st \<Longrightarrow>
   fst (rayTrace A scene eye ray depth st') = fst (rayTrace A scene eye ray depth st) \<and>
   lastColor (snd (rayTrace A scene eye ray depth st')) =
   lastColor (snd (rayTrace A scene eye ray depth st))"
proof (induction "nat (MAX_DEPTH - depth)" arbitrary: depth eye ray st st' rule: less_induct)
  case less
  show ?case
  proof (cases "depth < MAX_DEPTH")
    case False
    with less.prems show ?thesis by (simp add: rayTrace.simps)
  next
    case True
    have T0: "lastColor s' = lastColor s \<Longrightarrow>
                 fst (rayTrace A scene e r (depth + 1) s') = fst (rayTrace A scene e r (depth + 1) s) \<and>
                 lastColor (snd (rayTrace A scene e r (depth + 1) s')) =
                 lastColor (snd (rayTrace A scene e r (depth + 1) s))" for e r s s'
      using True by (intro less) simp_all
    have T1: "lastColor s' = lastColor s \<Longrightarrow>
                 fst (rayTrace A scene e r (depth + 1 + 1) s') = fst (rayTrace A scene e r (depth + 1 + 1) s) \<and>
                 lastColor (snd (rayTrace A scene e r (depth + 1 + 1) s')) =
                 lastColor (snd (rayTrace A scene e r (depth + 1 + 1) s))" for e r s s'
      using True by (intro less) simp_all
    let ?s' = "enter GetNearestObject (descend (enter (RayTrace eye ray depth) st'))"
    let ?s = "enter GetNearestObject (descend (enter (RayTrace eye ray depth) st))"
    have sh: "fst (shade A scene eye ray object point normal (depth + 1) ?s') =
              fst (shade A scene eye ray object point normal (depth + 1) ?s)"
      for object point normal
      unfolding shade.simps
      using shadeLoop_ghost[OF T0 T1, where st' = "enter (Shade (depth + 1)) ?s'"
              and st = "enter (Shade (depth + 1)) ?s"] less.prems
      by simp
    show ?thesis
      using less.prems
      by (simp add: rayTrace.simps[of _ _ _ _ depth] Let_def sh split: option.split)
  qed
qed

end

